theory Spec2Isabelle
  imports Main "HOL-Library.Word"
begin

section \<open>The runtime the controller client is written against\<close>

text \<open>
  \<^verbatim>\<open>src/WgCtl.ts\<close> builds its frames with the Node.js \<^verbatim>\<open>Buffer\<close> API. A buffer is a
  list of bytes. A JavaScript \<^verbatim>\<open>number\<close> is modelled by an \<open>int\<close>: the model covers the
  integer-valued numbers, which is what every width of the protocol is about. A
  JavaScript string is a \<open>string\<close> whose characters are the code units below 256.

  The checked writes of \<^verbatim>\<open>Buffer\<close> throw a \<^verbatim>\<open>RangeError\<close> when the value does not fit the
  field or the range leaves the buffer; a \<^verbatim>\<open>throw new Error(msg)\<close> of the source is
  \<open>Error msg\<close>.
\<close>

type_synonym u8 = "8 word"
type_synonym buffer = "u8 list"

datatype error = RangeError | TypeError | Error string

text \<open>Sequencing of calls that may throw: the first exception ends the computation.\<close>

definition andThen :: "error + 'a \<Rightarrow> ('a \<Rightarrow> error + 'b) \<Rightarrow> error + 'b" where
  "andThen r f = (case r of Inl e \<Rightarrow> Inl e | Inr x \<Rightarrow> f x)"

text \<open>\<^verbatim>\<open>Buffer.alloc(n)\<close>: \<open>n\<close> zero bytes.\<close>

definition alloc :: "nat \<Rightarrow> buffer" where
  "alloc n = replicate n 0"

text \<open>The \<open>n\<close> low bytes of a number, least significant first.\<close>

fun le_bytes :: "nat \<Rightarrow> int \<Rightarrow> u8 list" where
  "le_bytes 0 v = []"
| "le_bytes (Suc n) v = word_of_int (v mod 256) # le_bytes n (v div 256)"

text \<open>Overwriting the bytes of a buffer from an offset on, inside its bounds.\<close>

definition set_bytes :: "buffer \<Rightarrow> nat \<Rightarrow> u8 list \<Rightarrow> buffer" where
  "set_bytes buf off bs = take off buf @ bs @ drop (off + length bs) buf"

text \<open>
  \<^verbatim>\<open>buf.writeUInt8(value, offset)\<close>, \<^verbatim>\<open>buf.writeUInt16LE\<close> and \<^verbatim>\<open>buf.writeUInt32LE\<close>:
  a value outside the field's range, or a field outside the buffer, throws.
\<close>

definition writeUIntLE :: "nat \<Rightarrow> buffer \<Rightarrow> int \<Rightarrow> nat \<Rightarrow> error + buffer" where
  "writeUIntLE n buf v off =
     (if v < 0 \<or> v > 2 ^ (8 * n) - 1 then Inl RangeError
      else if off + n > length buf then Inl RangeError
      else Inr (set_bytes buf off (le_bytes n v)))"

definition writeUInt8 :: "buffer \<Rightarrow> int \<Rightarrow> nat \<Rightarrow> error + buffer" where
  "writeUInt8 = writeUIntLE 1"

definition writeUInt16LE :: "buffer \<Rightarrow> int \<Rightarrow> nat \<Rightarrow> error + buffer" where
  "writeUInt16LE = writeUIntLE 2"

definition writeUInt32LE :: "buffer \<Rightarrow> int \<Rightarrow> nat \<Rightarrow> error + buffer" where
  "writeUInt32LE = writeUIntLE 4"

text \<open>
  \<^verbatim>\<open>buf.fill(value, offset, end)\<close> with a buffer as value: an \<^verbatim>\<open>end\<close> beyond the buffer
  throws a \<^verbatim>\<open>RangeError\<close>; an empty range returns the buffer as it is; an empty value
  for a range that is not empty throws; otherwise the range is filled with the value,
  repeated as often as needed.
\<close>

definition fill :: "buffer \<Rightarrow> buffer \<Rightarrow> nat \<Rightarrow> nat \<Rightarrow> error + buffer" where
  "fill buf val off end =
     (if end > length buf then Inl RangeError
      else if off \<ge> end then Inr buf
      else if val = [] then Inl TypeError
      else Inr (set_bytes buf off (take (end - off) (concat (replicate (end - off) val)))))"

text \<open>
  Hexadecimal decoding as \<^verbatim>\<open>buf.write(string, offset, "hex")\<close> and
  \<^verbatim>\<open>Buffer.from(string, "hex")\<close> do it: two digits make a byte; decoding stops at the
  first pair that is not two hexadecimal digits, at a single trailing character, and
  when the room is used up.
\<close>

definition unhex :: "char \<Rightarrow> nat option" where
  "unhex c =
     (let n = (of_char c :: nat) in
      if 48 \<le> n \<and> n \<le> 57 then Some (n - 48)
      else if 65 \<le> n \<and> n \<le> 70 then Some (n - 55)
      else if 97 \<le> n \<and> n \<le> 102 then Some (n - 87)
      else None)"

fun hexDecode :: "nat \<Rightarrow> string \<Rightarrow> u8 list" where
  "hexDecode 0 s = []"
| "hexDecode (Suc n) (a # b # s) =
     (case (unhex a, unhex b) of
        (Some x, Some y) \<Rightarrow> of_nat (16 * x + y) # hexDecode n s
      | _ \<Rightarrow> [])"
| "hexDecode (Suc n) s = []"


definition write_hex :: "buffer \<Rightarrow> string \<Rightarrow> nat \<Rightarrow> error + buffer" where
  "write_hex buf s off =
     (if off > length buf then Inl RangeError
      else Inr (set_bytes buf off (hexDecode (length buf - off) s)))"

text \<open>
  \<^verbatim>\<open>string.replace(/\s/g, "")\<close>: the white space of a regular expression, among the
  code units below 256: tab, line feed, vertical tab, form feed, carriage return, space
  and the no-break space.
\<close>

definition is_space :: "char \<Rightarrow> bool" where
  "is_space c = ((of_char c :: nat) \<in> {9, 10, 11, 12, 13, 32, 160})"

definition strip_space :: "string \<Rightarrow> string" where
  "strip_space s = filter (\<lambda>c. \<not> is_space c) s"

text \<open>
  The truth value of an optional number or string in a condition: \<^verbatim>\<open>undefined\<close>, \<^verbatim>\<open>0\<close>
  and \<^verbatim>\<open>""\<close> are false.
\<close>

definition truthy_num :: "int option \<Rightarrow> bool" where
  "truthy_num v = (case v of None \<Rightarrow> False | Some n \<Rightarrow> n \<noteq> 0)"

definition truthy_str :: "string option \<Rightarrow> bool" where
  "truthy_str v = (case v of None \<Rightarrow> False | Some s \<Rightarrow> s \<noteq> [])"

section \<open>The controller client\<close>

text \<open>
  The sockets are the caller's. Of a UDP socket the model keeps the broadcast flag, the
  datagrams handed to \<^verbatim>\<open>send\<close> (data, port, address) and whether the one-shot
  \<^verbatim>\<open>message\<close> listener of \<^verbatim>\<open>detect\<close> is registered; of a TCP socket the buffers handed
  to \<^verbatim>\<open>write\<close>. The sockets take what they are handed: a socket that fails at the call
  (one that is closed or not bound, a port that is none) is outside the model.
\<close>

record udp_socket =
  broadcast :: bool
  sent :: "(buffer \<times> int \<times> string) list"
  listening :: bool

record tcp_socket =
  written :: "buffer list"

datatype socket = UdpSocket udp_socket | TcpSocket tcp_socket

text \<open>
  The fields of the class. \<^verbatim>\<open>detected\<close> is a promise of a boolean: \<open>None\<close> while it is
  pending, \<open>Some b\<close> once resolved with \<open>b\<close>.
\<close>

record WgCtl =
  ip :: string
  port :: int
  serial :: "int option"
  localSocket :: "udp_socket option"
  remoteSocket :: "tcp_socket option"
  detected :: "bool option"
  serverIp :: "string option"
  serverPort :: "int option"

text \<open>The argument \<^verbatim>\<open>payload?: string | number | Buffer\<close>.\<close>

datatype payload = PBuffer buffer | PNumber int | PString string

definition truthy_payload :: "payload option \<Rightarrow> bool" where
  "truthy_payload p =
     (case p of
        None \<Rightarrow> False
      | Some (PBuffer b) \<Rightarrow> True
      | Some (PNumber n) \<Rightarrow> n \<noteq> 0
      | Some (PString s) \<Rightarrow> s \<noteq> [])"

subsection \<open>The frame encoder\<close>

text \<open>
  \<^verbatim>\<open>packData\<close>, lines 94 to 122. The diagnostic record written to the console is not
  part of the model.
\<close>

definition write_payload :: "buffer \<Rightarrow> payload option \<Rightarrow> error + buffer" where
  "write_payload data p =
     (if truthy_payload p then
        (case p of
           Some (PBuffer b) \<Rightarrow> fill data b 8 (8 + length b)
         | Some (PNumber n) \<Rightarrow> writeUInt8 data n 8
         | Some (PString s) \<Rightarrow> write_hex data (strip_space s) 8
         | None \<Rightarrow> Inr data)
      else Inr data)"

definition packData :: "WgCtl \<Rightarrow> int \<Rightarrow> payload option \<Rightarrow> error + buffer" where
  "packData this funcCode p =
     andThen (writeUInt8 (alloc 64) 0x17 0) (\<lambda>d1.
     andThen (writeUInt8 d1 funcCode 1) (\<lambda>d2.
     andThen (if truthy_num (serial this) then writeUInt32LE d2 (the (serial this)) 4
              else Inr d2) (\<lambda>d3.
     write_payload d3 p)))"

subsection \<open>The two transports\<close>

text \<open>
  \<^verbatim>\<open>remoteSendData\<close> (lines 134 to 141) and \<^verbatim>\<open>localSendData\<close> (lines 143 to 164). The
  sockets report a failure later, to a callback that only logs it; the callback of the
  local send also switches the broadcast flag off again when no address is cached.
\<close>

definition remoteSendData :: "WgCtl \<Rightarrow> buffer \<Rightarrow> WgCtl" where
  "remoteSendData this data =
     (case remoteSocket this of
        None \<Rightarrow> this
      | Some s \<Rightarrow> this\<lparr>remoteSocket := Some (s\<lparr>written := written s @ [data]\<rparr>)\<rparr>)"

definition localSendData :: "WgCtl \<Rightarrow> buffer \<Rightarrow> WgCtl" where
  "localSendData this data =
     (case localSocket this of
        None \<Rightarrow> this
      | Some s \<Rightarrow>
          (let s1 = (if ip this = [] then s\<lparr>broadcast := True\<rparr> else s);
               address = (if ip this = [] then ''255.255.255.255'' else ip this)
           in this\<lparr>localSocket := Some (s1\<lparr>sent := sent s1 @ [(data, port this, address)]\<rparr>)\<rparr>))"

definition localSendData_callback :: "WgCtl \<Rightarrow> bool \<Rightarrow> WgCtl" where
  "localSendData_callback this err =
     (if err then
        (case localSocket this of
           None \<Rightarrow> this
         | Some s \<Rightarrow>
             if ip this = [] then this\<lparr>localSocket := Some (s\<lparr>broadcast := False\<rparr>)\<rparr>
             else this)
      else this)"

text \<open>
  \<^verbatim>\<open>sendData\<close>, lines 124 to 132. An exception of \<^verbatim>\<open>packData\<close> leaves the method before
  anything is sent or assigned: \<open>Inl\<close> is the instance as it was.
\<close>

definition sendData :: "WgCtl \<Rightarrow> int \<Rightarrow> payload option \<Rightarrow> error + WgCtl" where
  "sendData this funcCode p =
     andThen (packData this funcCode p) (\<lambda>data.
       if remoteSocket this \<noteq> None then Inr (remoteSendData this data)
       else Inr (localSendData this data))"

subsection \<open>The commands\<close>

text \<open>
  Lines 166 to 231. \<^verbatim>\<open>ipToHex\<close> and \<^verbatim>\<open>buildBcdDate\<close> come from \<^verbatim>\<open>./utils\<close>, which is
  not part of the sources at hand: they are parameters, as is the clock that
  \<^verbatim>\<open>new Date()\<close> reads. The interval of \<^verbatim>\<open>setServerAddress\<close> is 0 when the caller
  leaves it out.
\<close>

definition search :: "WgCtl \<Rightarrow> error + WgCtl" where
  "search this = sendData this 0x94 None"

definition openDoor :: "WgCtl \<Rightarrow> int \<Rightarrow> error + WgCtl" where
  "openDoor this door = sendData this 0x40 (Some (PNumber door))"



definition setAuth_payload :: "int \<Rightarrow> int \<Rightarrow> error + buffer" where
  "setAuth_payload cardNo door =
     andThen (writeUInt32LE (alloc 16) cardNo 0) (\<lambda>p1.
     andThen (write_hex p1 ''20190101'' 4) (\<lambda>p2.
     andThen (write_hex p2 ''20291231'' 8) (\<lambda>p3.
     andThen (writeUInt8 p3 (if door = 1 then 1 else 0) 12) (\<lambda>p4.
     andThen (writeUInt8 p4 (if door = 2 then 1 else 0) 13) (\<lambda>p5.
     andThen (writeUInt8 p5 (if door = 3 then 1 else 0) 14) (\<lambda>p6.
     writeUInt8 p6 (if door = 4 then 1 else 0) 15))))))"

definition setAuth :: "WgCtl \<Rightarrow> int \<Rightarrow> int \<Rightarrow> error + WgCtl" where
  "setAuth this cardNo door =
     andThen (setAuth_payload cardNo door) (\<lambda>p. sendData this 0x50 (Some (PBuffer p)))"

definition getAuth :: "WgCtl \<Rightarrow> int \<Rightarrow> error + WgCtl" where
  "getAuth this cardNo =
     andThen (writeUInt32LE (alloc 56) cardNo 0) (\<lambda>p. sendData this 0x5a (Some (PBuffer p)))"

definition removeAuth :: "WgCtl \<Rightarrow> int \<Rightarrow> error + WgCtl" where
  "removeAuth this cardNo =
     andThen (writeUInt32LE (alloc 56) cardNo 0) (\<lambda>p. sendData this 0x52 (Some (PBuffer p)))"


definition setServerAddress_payload :: "(string \<Rightarrow> string) \<Rightarrow> string \<Rightarrow> int \<Rightarrow> int \<Rightarrow> error + buffer" where
  "setServerAddress_payload ipToHex addr prt interval =
     andThen (write_hex (alloc 7) (ipToHex addr) 0) (\<lambda>p1.
     andThen (writeUInt16LE p1 prt 4) (\<lambda>p2.
     writeUInt8 p2 interval 6))"

definition setServerAddress :: "(string \<Rightarrow> string) \<Rightarrow> WgCtl \<Rightarrow> string \<Rightarrow> int \<Rightarrow> int \<Rightarrow> error + WgCtl" where
  "setServerAddress ipToHex this addr prt interval =
     andThen (setServerAddress_payload ipToHex addr prt interval) (\<lambda>p.
       sendData this 0x90 (Some (PBuffer p)))"

definition setAddress_payload :: "(string \<Rightarrow> string) \<Rightarrow> string \<Rightarrow> string \<Rightarrow> string \<Rightarrow> error + buffer" where
  "setAddress_payload ipToHex addr subnet gateway =
     andThen (write_hex (alloc 16) (ipToHex addr) 0) (\<lambda>p1.
     andThen (write_hex p1 (ipToHex subnet) 4) (\<lambda>p2.
     andThen (write_hex p2 (ipToHex gateway) 8) (\<lambda>p3.
     write_hex p3 ''55aaaa55'' 12)))"

definition setAddress :: "(string \<Rightarrow> string) \<Rightarrow> WgCtl \<Rightarrow> string \<Rightarrow> string \<Rightarrow> string \<Rightarrow> error + WgCtl" where
  "setAddress ipToHex this addr subnet gateway =
     andThen (setAddress_payload ipToHex addr subnet gateway) (\<lambda>p.
     andThen (sendData this 0x96 (Some (PBuffer p))) (\<lambda>this1.
     Inr (this1\<lparr>ip := []\<rparr>)))"


subsection \<open>Discovery\<close>

text \<open>
  \<^verbatim>\<open>detect\<close>, lines 48 to 92, is an \<^verbatim>\<open>async\<close> method. \<open>detect\<close> is the part that runs
  at the call, up to the \<^verbatim>\<open>await\<close>: the guard, \<^verbatim>\<open>search\<close>, the new pending promise and
  the registration of the one-shot listener. An exception there rejects the promise
  that the method returns; nothing of the instance has changed then.
\<close>

definition detect :: "WgCtl \<Rightarrow> error + WgCtl" where
  "detect this =
     (if \<not> truthy_str (serverIp this) \<or> \<not> truthy_num (serverPort this)
      then Inl (Error ''Detect is not available when server ip and port undefined.'')
      else andThen (search this) (\<lambda>this1.
        Inr (case localSocket this1 of
               None \<Rightarrow> this1\<lparr>detected := None\<rparr>
             | Some s \<Rightarrow> this1\<lparr>detected := None, localSocket := Some (s\<lparr>listening := True\<rparr>)\<rparr>)))"

text \<open>
  The record that \<^verbatim>\<open>parseData\<close> (of \<^verbatim>\<open>./utils\<close>, a parameter here) decodes from an
  incoming datagram.
\<close>

record device_info =
  data_serial :: int
  data_ip :: string
  subNet :: string
  gateway :: string
  mac :: string
  version :: string
  release :: string

text \<open>
  The body of the listener, lines 60 to 81. The boolean of the result says whether
  \<^verbatim>\<open>resolve(true)\<close> was reached.
\<close>

definition on_message :: "(buffer \<Rightarrow> error + device_info) \<Rightarrow> WgCtl \<Rightarrow> buffer \<Rightarrow> error + (WgCtl \<times> bool)" where
  "on_message parseData this msg =
     andThen (parseData msg) (\<lambda>data.
       if Some (data_serial data) \<noteq> serial this then Inr (this, False)
       else if data_ip data = ''192.168.0.0'' then Inr (this\<lparr>ip := []\<rparr>, True)
       else Inr (this\<lparr>ip := data_ip data\<rparr>, True))"

text \<open>
  What follows the \<^verbatim>\<open>await\<close>, line 91. The guard of \<^verbatim>\<open>detect\<close> has seen both fields
  set before the listener was registered.
\<close>

definition detect_resume :: "(string \<Rightarrow> string) \<Rightarrow> WgCtl \<Rightarrow> error + WgCtl" where
  "detect_resume ipToHex this =
     (case (serverIp this, serverPort this) of
        (Some a, Some b) \<Rightarrow> setServerAddress ipToHex this a b 0
      | _ \<Rightarrow> Inl TypeError)"

text \<open>
  A datagram arrives on the local socket. A listener registered with \<^verbatim>\<open>once\<close> is removed
  and then called; when it resolves the promise, \<^verbatim>\<open>detect\<close> resumes. The result is the
  instance after the event and the exception that left it, if any.
\<close>

definition message_event ::
  "(buffer \<Rightarrow> error + device_info) \<Rightarrow> (string \<Rightarrow> string) \<Rightarrow> WgCtl \<Rightarrow> buffer \<Rightarrow> WgCtl \<times> error option" where
  "message_event parseData ipToHex this msg =
     (case localSocket this of
        None \<Rightarrow> (this, None)
      | Some s \<Rightarrow>
          if \<not> listening s then (this, None)
          else
            (let this1 = this\<lparr>localSocket := Some (s\<lparr>listening := False\<rparr>)\<rparr> in
             case on_message parseData this1 msg of
               Inl e \<Rightarrow> (this1, Some e)
             | Inr (this2, resolved) \<Rightarrow>
                 if \<not> resolved then (this2, None)
                 else
                   (let this3 = this2\<lparr>detected := Some True\<rparr> in
                    case detect_resume ipToHex this3 of
                      Inl e \<Rightarrow> (this3, Some e)
                    | Inr this4 \<Rightarrow> (this4, None))))"

subsection \<open>Construction\<close>

text \<open>
  The constructor, lines 17 to 46. An argument left out is \<open>None\<close>; \<^verbatim>\<open>ip\<close> and \<^verbatim>\<open>port\<close>
  have defaults. The fields \<^verbatim>\<open>serverIp\<close> and \<^verbatim>\<open>serverPort\<close> are assigned in the branch of
  the UDP socket only, and the test of the other branch reads the fields. The promise
  that \<^verbatim>\<open>detect\<close> returns is dropped, so its rejection is not an exception of the
  constructor.
\<close>

definition constructor ::
  "socket \<Rightarrow> int option \<Rightarrow> string option \<Rightarrow> int option \<Rightarrow> string option \<Rightarrow> int option \<Rightarrow> error + WgCtl" where
  "constructor sock serial_arg serverIp_arg serverPort_arg ip_arg port_arg =
     (let this0 = \<lparr>ip = (case ip_arg of None \<Rightarrow> [] | Some a \<Rightarrow> a),
                   port = (case port_arg of None \<Rightarrow> 60000 | Some n \<Rightarrow> n),
                   serial = serial_arg,
                   localSocket = None, remoteSocket = None, detected = None,
                   serverIp = None, serverPort = None\<rparr>
      in andThen
        (case sock of
           UdpSocket s \<Rightarrow>
             Inr (this0\<lparr>localSocket := Some s, serverIp := serverIp_arg,
                        serverPort := serverPort_arg\<rparr>)
         | TcpSocket s \<Rightarrow>
             (let this1 = this0\<lparr>remoteSocket := Some s\<rparr> in
              if truthy_str (serverIp this1) \<or> truthy_num (serverPort this1)
              then Inl (Error ''Server ip and port only available for local mode.'')
              else Inr this1))
        (\<lambda>this2.
           let this3 = this2\<lparr>detected := Some (ip this2 \<noteq> [])\<rparr> in
           if ip this3 = [] \<and> localSocket this3 \<noteq> None \<and> truthy_num (serial this3)
           then (case detect this3 of Inl e \<Rightarrow> Inr this3 | Inr this4 \<Rightarrow> Inr this4)
           else Inr this3))"

section \<open>The domains the statements range over\<close>

text \<open>
  The serial of the instance is absent or an unsigned 32-bit number, as the protocol
  has it.
\<close>

definition uint32_serial :: "WgCtl \<Rightarrow> bool" where
  "uint32_serial this = (case serial this of None \<Rightarrow> True | Some s \<Rightarrow> 0 \<le> s \<and> s < 2 ^ 32)"

text \<open>The number that the frame carries at offset 4: zero without a serial.\<close>

definition serial_value :: "WgCtl \<Rightarrow> int" where
  "serial_value this = (case serial this of None \<Rightarrow> 0 | Some s \<Rightarrow> s)"

text \<open>
  A payload that the 56 bytes after the header take: a byte sequence of at most 56
  bytes, a number that is a byte, any string, or none.
\<close>

definition fits_frame :: "payload option \<Rightarrow> bool" where
  "fits_frame p =
     (case p of
        Some (PBuffer b) \<Rightarrow> length b \<le> 56
      | Some (PNumber n) \<Rightarrow> 0 \<le> n \<and> n \<le> 255
      | _ \<Rightarrow> True)"

text \<open>The eight bytes of the header of a frame.\<close>

definition header :: "WgCtl \<Rightarrow> int \<Rightarrow> buffer" where
  "header this funcCode = [0x17, word_of_int funcCode, 0, 0] @ le_bytes 4 (serial_value this)"

text \<open>Bytes written as lower-case hexadecimal digits, two for each byte.\<close>

definition hex_digit :: "nat \<Rightarrow> char" where
  "hex_digit n = (if n < 10 then char_of (48 + n) else char_of (87 + n))"

fun hex_of :: "buffer \<Rightarrow> string" where
  "hex_of [] = []"
| "hex_of (b # bs) = hex_digit (unat b div 16) # hex_digit (unat b mod 16) # hex_of bs"

text \<open>Reading four bytes from an offset as an unsigned number, least significant first.\<close>

definition readUInt32LE :: "buffer \<Rightarrow> nat \<Rightarrow> int" where
  "readUInt32LE buf off =
     uint (buf ! off) + 256 * uint (buf ! (off + 1)) + 65536 * uint (buf ! (off + 2))
     + 16777216 * uint (buf ! (off + 3))"

text \<open>Handing a frame to the transport of the instance, as \<^verbatim>\<open>sendData\<close> does.\<close>

definition transmit :: "WgCtl \<Rightarrow> buffer \<Rightarrow> WgCtl" where
  "transmit this data =
     (if remoteSocket this \<noteq> None then remoteSendData this data else localSendData this data)"

text \<open>
  An instance for the examples: serial 1001 on a UDP socket, no address known yet, the
  callback target 10.0.0.5, port 9000.
\<close>

abbreviation example_socket :: udp_socket where
  "example_socket \<equiv> \<lparr>broadcast = False, sent = [], listening = False\<rparr>"

abbreviation example_local :: WgCtl where
  "example_local \<equiv>
     \<lparr>ip = [], port = 60000, serial = Some 1001, localSocket = Some example_socket,
      remoteSocket = None, detected = Some False, serverIp = Some ''10.0.0.5'',
      serverPort = Some 9000\<rparr>"

text \<open>
  The same instance as the constructor leaves it, waiting for the reply to its search
  frame, and a reply as the decoder returns it.
\<close>

abbreviation search_frame :: buffer where
  "search_frame \<equiv> [0x17, 0x94, 0, 0, 0xE9, 0x03, 0, 0] @ replicate 56 0"

abbreviation searching_socket :: udp_socket where
  "searching_socket \<equiv>
     \<lparr>broadcast = True, sent = [(search_frame, 60000, ''255.255.255.255'')],
      listening = True\<rparr>"

abbreviation example_searching :: WgCtl where
  "example_searching \<equiv>
     \<lparr>ip = [], port = 60000, serial = Some 1001, localSocket = Some searching_socket,
      remoteSocket = None, detected = None, serverIp = Some ''10.0.0.5'',
      serverPort = Some 9000\<rparr>"

abbreviation example_reply :: "int \<Rightarrow> string \<Rightarrow> device_info" where
  "example_reply n a \<equiv>
     \<lparr>data_serial = n, data_ip = a, subNet = ''255.255.255.0'', gateway = ''10.0.0.1'',
      mac = ''00-66-19-39-55-2d'', version = ''6.56'', release = ''2015-04-29''\<rparr>"

section \<open>Buffers\<close>

lemma length_le_bytes: "length (le_bytes n v) = n"
  by (induction n arbitrary: v) simp_all

lemma length_set_bytes:
  "off + length bs \<le> length buf \<Longrightarrow> length (set_bytes buf off bs) = length buf"
  by (simp add: set_bytes_def)

lemma take_set_bytes:
  "n \<le> off \<Longrightarrow> off \<le> length buf \<Longrightarrow> take n (set_bytes buf off bs) = take n buf"
  by (simp add: set_bytes_def min_def)

lemma writeUIntLE_Inr:
  "writeUIntLE n buf v off = Inr b \<longleftrightarrow>
     0 \<le> v \<and> v < 2 ^ (8 * n) \<and> off + n \<le> length buf \<and> b = set_bytes buf off (le_bytes n v)"
  by (auto simp: writeUIntLE_def)

lemma length_hexDecode: "length (hexDecode n s) \<le> n"
  by (induction n s rule: hexDecode.induct) (auto split: option.splits)

lemma hexDecode_Nil: "hexDecode n [] = []"
  by (cases n) simp_all

lemma uint_byte: "0 \<le> k \<Longrightarrow> k \<le> 255 \<Longrightarrow> uint (word_of_int k :: u8) = k"
  by (simp add: uint_word_of_int)

lemma take_concat_replicate:
  "0 < n \<Longrightarrow> take (length b) (concat (replicate n b)) = b"
  by (cases n) simp_all

text \<open>Four bytes written least significant first read back as the number.\<close>

lemma le_bytes4_read:
  assumes "0 \<le> s" "s < 2 ^ 32"
  shows "uint (le_bytes 4 s ! 0) + 256 * uint (le_bytes 4 s ! 1)
       + 65536 * uint (le_bytes 4 s ! 2) + 16777216 * uint (le_bytes 4 s ! 3) = s"
proof -
  define q1 where "q1 = s div 256"
  define q2 where "q2 = q1 div 256"
  define q3 where "q3 = q2 div 256"
  have b: "uint (word_of_int (k mod 256) :: u8) = k mod 256" for k
    by (simp add: uint_word_of_int)
  have unfold: "le_bytes 4 s = [word_of_int (s mod 256), word_of_int (q1 mod 256),
      word_of_int (q2 mod 256), word_of_int (q3 mod 256)]"
    by (simp add: numeral_eq_Suc q1_def q2_def q3_def)
  have "0 \<le> q3" "q3 < 256"
    using assms by (simp_all add: q1_def q2_def q3_def)
  then have small: "q3 mod 256 = q3"
    by simp
  have "s = s mod 256 + 256 * q1" "q1 = q1 mod 256 + 256 * q2" "q2 = q2 mod 256 + 256 * q3"
    by (simp_all add: q1_def q2_def q3_def)
  with small
  have "s mod 256 + 256 * (q1 mod 256) + 65536 * (q2 mod 256) + 16777216 * (q3 mod 256) = s"
    by linarith
  then show ?thesis
    by (simp only: unfold b nth_Cons_0 nth_Cons_Suc One_nat_def numeral_2_eq_2
        numeral_3_eq_3)
qed

text \<open>Decoding undoes the hexadecimal writing of bytes, as far as the room goes.\<close>

lemma unhex_hex_digit: "n < 16 \<Longrightarrow> unhex (hex_digit n) = Some n"
  by (auto simp: unhex_def hex_digit_def Let_def)

lemma hexDecode_hex_of: "hexDecode n (hex_of bs) = take n bs"
proof (induction n arbitrary: bs)
  case 0
  then show ?case by simp
next
  case (Suc n)
  show ?case
  proof (cases bs)
    case Nil
    then show ?thesis by simp
  next
    case (Cons b bs')
    have "16 * (unat b div 16) + unat b mod 16 = unat b"
      by simp
    then have "(of_nat (16 * (unat b div 16) + unat b mod 16) :: u8) = of_nat (unat b)"
      by (rule arg_cong)
    then have "(of_nat (16 * (unat b div 16) + unat b mod 16) :: u8) = b"
      by simp
    moreover have "unat b < 256"
      using unsigned_less [of b, where ?'a = nat] by simp
    then have "unat b div 16 < 16"
      by simp
    ultimately show ?thesis
      using Cons Suc.IH [of bs'] by (simp add: unhex_hex_digit)
  qed
qed

section \<open>The frame encoder\<close>

text \<open>What the encoder does with the payload, on a buffer of 64 bytes.\<close>

lemma write_payload_fits:
  assumes "length d = 64"
  shows "write_payload d p =
     (if fits_frame p then
        Inr (take 8 d @
          (case p of
             None \<Rightarrow> drop 8 d
           | Some (PBuffer b) \<Rightarrow> b @ drop (8 + length b) d
           | Some (PNumber n) \<Rightarrow> if n = 0 then drop 8 d else word_of_int n # drop 9 d
           | Some (PString s) \<Rightarrow>
               if s = [] then drop 8 d
               else hexDecode 56 (strip_space s) @
                    drop (8 + length (hexDecode 56 (strip_space s))) d))
      else Inl RangeError)"
proof (cases p)
  case None
  then show ?thesis by (simp add: write_payload_def truthy_payload_def fits_frame_def)
next
  case (Some q)
  show ?thesis
  proof (cases q)
    case (PBuffer b)
    with Some assms show ?thesis
      by (simp add: write_payload_def truthy_payload_def fits_frame_def fill_def
          set_bytes_def take_concat_replicate)
  next
    case (PNumber n)
    with Some assms show ?thesis
      by (auto simp: write_payload_def truthy_payload_def fits_frame_def writeUInt8_def
          writeUIntLE_def set_bytes_def)
  next
    case (PString s)
    with Some assms show ?thesis
      by (simp add: write_payload_def truthy_payload_def fits_frame_def write_hex_def
          set_bytes_def)
  qed
qed

text \<open>The header is written before the payload; it throws for a function code that is
  not a byte and for a serial that is not an unsigned 32-bit number.\<close>

lemma packData_header:
  assumes "0 \<le> funcCode" "funcCode \<le> 255" "uint32_serial this"
  shows "packData this funcCode p = write_payload (header this funcCode @ replicate 56 0) p"
  using assms
  by (auto simp: packData_def andThen_def writeUInt8_def writeUInt32LE_def writeUIntLE_def
      alloc_def set_bytes_def uint32_serial_def serial_value_def truthy_num_def header_def
      numeral_eq_Suc split: option.splits)

lemma length_header: "length (header this funcCode) = 8"
  by (simp add: header_def length_le_bytes)

lemma packData_Inr_funcCode:
  assumes "packData this funcCode p = Inr f"
  shows "0 \<le> funcCode \<and> funcCode \<le> 255"
  using assms
  by (auto simp: packData_def andThen_def writeUInt8_def writeUIntLE_def alloc_def
      split: sum.splits if_splits)

lemma packData_Inr_serial:
  assumes "packData this funcCode p = Inr f"
  shows "uint32_serial this"
  using assms
  by (auto simp: packData_def andThen_def writeUInt8_def writeUInt32LE_def writeUIntLE_def
      alloc_def truthy_num_def uint32_serial_def split: sum.splits if_splits option.splits)

text \<open>Every frame that the encoder returns: 64 bytes, the header, then the payload in
  a field of zeros.\<close>

lemma packData_returns:
  assumes "0 \<le> funcCode" "funcCode \<le> 255" "uint32_serial this" "fits_frame p"
  shows "\<exists>body. length body = 56 \<and> packData this funcCode p = Inr (header this funcCode @ body)"
proof -
  let ?d = "header this funcCode @ replicate 56 0"
  have len: "length ?d = 64"
    by (simp add: length_header)
  have room: "length (hexDecode 56 s) \<le> 56" for s
    by (rule length_hexDecode)
  from assms(4) write_payload_fits [OF len, of p] packData_header [OF assms(1-3), of p]
  show ?thesis
    using room
    by (auto simp: length_header fits_frame_def split: option.splits payload.splits)
qed

lemma packData_Inr_frame:
  assumes "packData this funcCode p = Inr f"
  shows "length f = 64 \<and> take 8 f = header this funcCode"
proof -
  from assms have fc: "0 \<le> funcCode" "funcCode \<le> 255" and ser: "uint32_serial this"
    using packData_Inr_funcCode packData_Inr_serial by blast+
  have "fits_frame p"
  proof (rule ccontr)
    assume "\<not> fits_frame p"
    with write_payload_fits [of "header this funcCode @ replicate 56 0" p]
      packData_header [OF fc ser, of p] assms
    show False by (simp add: length_header)
  qed
  from packData_returns [OF fc ser this] assms show ?thesis
    by (auto simp: length_header)
qed

lemma packData_Inr_nth:
  assumes "packData this funcCode p = Inr f" "i < 8"
  shows "f ! i = header this funcCode ! i"
proof -
  from packData_Inr_frame [OF assms(1)] have "take 8 f = header this funcCode" ..
  then have "take 8 f ! i = header this funcCode ! i"
    by simp
  with assms(2) show ?thesis
    by simp
qed

lemma andThen_Inr: "andThen r f = Inr y \<longleftrightarrow> (\<exists>x. r = Inr x \<and> f x = Inr y)"
  by (cases r) (simp_all add: andThen_def)

lemma andThen_simps: "andThen (Inr x) f = f x" "andThen (Inl e) f = Inl e"
  by (simp_all add: andThen_def)

lemma packData_buffer:
  assumes "0 \<le> funcCode" "funcCode \<le> 255" "uint32_serial this" "length b \<le> 56"
  shows "packData this funcCode (Some (PBuffer b))
     = Inr (header this funcCode @ b @ replicate (56 - length b) 0)"
  using assms(4) write_payload_fits [of "header this funcCode @ replicate 56 0" "Some (PBuffer b)"]
  by (simp add: packData_header [OF assms(1-3)] fits_frame_def length_header)

lemma packData_number:
  assumes "0 \<le> funcCode" "funcCode \<le> 255" "uint32_serial this" "0 \<le> n" "n \<le> 255"
  shows "packData this funcCode (Some (PNumber n))
     = Inr (header this funcCode @ word_of_int n # replicate 55 0)"
proof -
  have "packData this funcCode (Some (PNumber n))
      = Inr (header this funcCode
             @ (if n = 0 then replicate 56 0 else word_of_int n # replicate 55 0))"
    using assms(4,5)
      write_payload_fits [of "header this funcCode @ replicate 56 0" "Some (PNumber n)"]
    by (simp add: packData_header [OF assms(1-3)] fits_frame_def length_header)
  moreover have "replicate 56 (0::u8) = word_of_int 0 # replicate 55 0"
    using replicate_Suc [of 55 "0::u8"] by simp
  ultimately show ?thesis
    by (cases "n = 0") simp_all
qed

lemma packData_unfit:
  assumes "0 \<le> funcCode" "funcCode \<le> 255" "uint32_serial this" "\<not> fits_frame p"
  shows "packData this funcCode p = Inl RangeError"
  using assms(4) write_payload_fits [of "header this funcCode @ replicate 56 0" p]
  by (simp add: packData_header [OF assms(1-3)] length_header)

lemma hex_dates:
  "hexDecode 12 ''20190101'' = [0x20, 0x19, 0x01, 0x01]"
  "hexDecode 8 ''20291231'' = [0x20, 0x29, 0x12, 0x31]"
  by code_simp+

lemma length4E:
  assumes "length xs = 4"
  obtains a b c d where "xs = [a, b, c, d]"
  using assms by (auto simp: length_Suc_conv numeral_eq_Suc)

lemma set_bytes_at:
  "length pre = off \<Longrightarrow> length old = length new \<Longrightarrow>
   set_bytes (pre @ old @ post) off new = pre @ new @ post"
  by (simp add: set_bytes_def)

lemma setAuth_payload_eq:
  assumes "0 \<le> cardNo" "cardNo < 2 ^ 32"
  shows "setAuth_payload cardNo door
     = Inr (le_bytes 4 cardNo @ [0x20, 0x19, 0x01, 0x01, 0x20, 0x29, 0x12, 0x31,
            if door = 1 then 1 else 0, if door = 2 then 1 else 0,
            if door = 3 then 1 else 0, if door = 4 then 1 else 0])"
proof -
  let ?L = "le_bytes 4 cardNo"
  let ?m = "\<lambda>k. if door = k then 1 else (0::u8)"
  have w8: "writeUInt8 buf (if door = k then 1 else 0) off
      = Inr (set_bytes buf off [?m k])" if "off < length buf" for buf k off
    using that by (auto simp: writeUInt8_def writeUIntLE_def)
  have lenL: "length ?L = 4"
    by (rule length_le_bytes)
  have p1: "writeUInt32LE (alloc 16) cardNo 0 = Inr (?L @ [0, 0, 0, 0] @ [0, 0, 0, 0, 0, 0, 0, 0])"
    using assms lenL
    by (simp add: writeUInt32LE_def writeUIntLE_def alloc_def set_bytes_def numeral_eq_Suc
        del: le_bytes.simps)
  have p2: "write_hex (?L @ [0, 0, 0, 0] @ [0, 0, 0, 0, 0, 0, 0, 0]) ''20190101'' 4
      = Inr (?L @ [0x20, 0x19, 0x01, 0x01] @ [0, 0, 0, 0, 0, 0, 0, 0])"
    using lenL set_bytes_at [of ?L 4 "[0, 0, 0, 0]" "[0x20, 0x19, 0x01, 0x01]"]
    by (simp add: write_hex_def hex_dates del: le_bytes.simps)
  have p3: "write_hex (?L @ [0x20, 0x19, 0x01, 0x01] @ [0, 0, 0, 0, 0, 0, 0, 0]) ''20291231'' 8
      = Inr (?L @ [0x20, 0x19, 0x01, 0x01] @ [0x20, 0x29, 0x12, 0x31] @ [0, 0, 0, 0])"
    using lenL set_bytes_at [of "?L @ [0x20, 0x19, 0x01, 0x01]" 8 "[0, 0, 0, 0]"
        "[0x20, 0x29, 0x12, 0x31]" "[0, 0, 0, 0]"]
    by (simp add: write_hex_def hex_dates del: le_bytes.simps)
  let ?pre = "?L @ [0x20, 0x19, 0x01, 0x01] @ [0x20, 0x29, 0x12, 0x31]"
  have lenpre: "length ?pre = 12"
    using lenL by simp
  have p4: "writeUInt8 (?L @ [0x20, 0x19, 0x01, 0x01] @ [0x20, 0x29, 0x12, 0x31] @ [0, 0, 0, 0])
        (if door = 1 then 1 else 0) 12
      = Inr (?L @ [0x20, 0x19, 0x01, 0x01] @ [0x20, 0x29, 0x12, 0x31] @ [?m 1, 0, 0, 0])"
    using lenpre set_bytes_at [of ?pre 12 "[0]" "[?m 1]" "[0, 0, 0]"]
    by (simp add: w8 del: le_bytes.simps)
  have p5: "writeUInt8 (?L @ [0x20, 0x19, 0x01, 0x01] @ [0x20, 0x29, 0x12, 0x31] @ [?m 1, 0, 0, 0])
        (if door = 2 then 1 else 0) 13
      = Inr (?L @ [0x20, 0x19, 0x01, 0x01] @ [0x20, 0x29, 0x12, 0x31] @ [?m 1, ?m 2, 0, 0])"
    using lenpre set_bytes_at [of "?pre @ [?m 1]" 13 "[0]" "[?m 2]" "[0, 0]"]
    by (simp add: w8 del: le_bytes.simps)
  have p6: "writeUInt8 (?L @ [0x20, 0x19, 0x01, 0x01] @ [0x20, 0x29, 0x12, 0x31] @ [?m 1, ?m 2, 0, 0])
        (if door = 3 then 1 else 0) 14
      = Inr (?L @ [0x20, 0x19, 0x01, 0x01] @ [0x20, 0x29, 0x12, 0x31] @ [?m 1, ?m 2, ?m 3, 0])"
    using lenpre set_bytes_at [of "?pre @ [?m 1, ?m 2]" 14 "[0]" "[?m 3]" "[0]"]
    by (simp add: w8 del: le_bytes.simps)
  have p7: "writeUInt8 (?L @ [0x20, 0x19, 0x01, 0x01] @ [0x20, 0x29, 0x12, 0x31] @ [?m 1, ?m 2, ?m 3, 0])
        (if door = 4 then 1 else 0) 15
      = Inr (?L @ [0x20, 0x19, 0x01, 0x01] @ [0x20, 0x29, 0x12, 0x31] @ [?m 1, ?m 2, ?m 3, ?m 4])"
    using lenpre set_bytes_at [of "?pre @ [?m 1, ?m 2, ?m 3]" 15 "[0]" "[?m 4]" "[]"]
    by (simp add: w8 del: le_bytes.simps)
  have "setAuth_payload cardNo door
      = Inr (?L @ [0x20, 0x19, 0x01, 0x01] @ [0x20, 0x29, 0x12, 0x31] @ [?m 1, ?m 2, ?m 3, ?m 4])"
    unfolding setAuth_payload_def
    by (simp only: p1 p2 p3 p4 p5 p6 p7 andThen_simps)
  then show ?thesis
    by (simp del: le_bytes.simps)
qed

section \<open>Sending\<close>

lemma sendData_transmit: "sendData this funcCode p = andThen (packData this funcCode p) (\<lambda>data. Inr (transmit this data))"
  by (simp add: sendData_def transmit_def andThen_def split: sum.splits)

lemma transmit_fields:
  "ip (transmit this data) = ip this" "port (transmit this data) = port this"
  "serial (transmit this data) = serial this"
  "serverIp (transmit this data) = serverIp this"
  "serverPort (transmit this data) = serverPort this"
  "detected (transmit this data) = detected this"
  by (simp_all add: transmit_def remoteSendData_def localSendData_def Let_def
      split: option.splits)

lemma transmit_localSocket:
  "localSocket this \<noteq> None \<Longrightarrow> localSocket (transmit this data) \<noteq> None"
  by (auto simp: transmit_def remoteSendData_def localSendData_def Let_def
      split: option.splits)

lemma sendData_Inr:
  assumes "sendData this funcCode p = Inr t"
  shows "ip t = ip this \<and> port t = port this \<and> serial t = serial this"
  using assms by (auto simp: sendData_transmit andThen_Inr transmit_fields)

lemma sendData_fits:
  assumes "0 \<le> funcCode" "funcCode \<le> 255" "uint32_serial this" "fits_frame p"
  shows "\<exists>body. length body = 56
     \<and> sendData this funcCode p = Inr (transmit this (header this funcCode @ body))"
  using packData_returns [OF assms]
  by (auto simp: sendData_transmit andThen_simps)

lemma write_hex_Inr:
  assumes "off \<le> length buf"
  shows "\<exists>b. write_hex buf s off = Inr b \<and> length b = length buf"
  using assms length_hexDecode [of "length buf - off" s]
  by (simp add: write_hex_def length_set_bytes)

lemma setAddress_payload_Inr:
  "\<exists>pl. setAddress_payload ipToHex a sn gw = Inr pl \<and> length pl = 16"
proof -
  obtain p1 where p1: "write_hex (alloc 16) (ipToHex a) 0 = Inr p1" "length p1 = 16"
    using write_hex_Inr [of 0 "alloc 16"] by (auto simp: alloc_def)
  obtain p2 where p2: "write_hex p1 (ipToHex sn) 4 = Inr p2" "length p2 = 16"
    using write_hex_Inr [of 4 p1] p1(2) by auto
  obtain p3 where p3: "write_hex p2 (ipToHex gw) 8 = Inr p3" "length p3 = 16"
    using write_hex_Inr [of 8 p2] p2(2) by auto
  obtain p4 where p4: "write_hex p3 ''55aaaa55'' 12 = Inr p4" "length p4 = 16"
    using write_hex_Inr [of 12 p3] p3(2) by auto
  from p1 p2 p3 p4 show ?thesis
    by (simp add: setAddress_payload_def andThen_simps)
qed

lemma sendData_Inl:
  assumes "packData this funcCode p = Inl e"
  shows "sendData this funcCode p = Inl e"
  using assms by (simp add: sendData_def andThen_simps)

lemma frame_nth_payload: "(header this funcCode @ body) ! (8 + i) = body ! i"
  by (simp add: nth_append length_header)

lemma frame_nth_prefix:
  "i < length pre \<Longrightarrow> (header this funcCode @ (pre @ rest) @ zs) ! (8 + i) = pre ! i"
  by (simp add: nth_append length_header)

lemma setServerAddress_payload_Inr:
  assumes "0 \<le> prt" "prt \<le> 65535" "0 \<le> interval" "interval \<le> 255"
  shows "\<exists>pl. setServerAddress_payload ipToHex addr prt interval = Inr pl \<and> length pl = 7"
proof -
  obtain p1 where p1: "write_hex (alloc 7) (ipToHex addr) 0 = Inr p1" "length p1 = 7"
    using write_hex_Inr [of 0 "alloc 7"] by (auto simp: alloc_def)
  have "writeUInt16LE p1 prt 4 = Inr (set_bytes p1 4 (le_bytes 2 prt))"
    using assms p1(2) by (simp add: writeUInt16LE_def writeUIntLE_def del: le_bytes.simps)
  moreover have len2: "length (set_bytes p1 4 (le_bytes 2 prt)) = 7"
    using p1(2) by (simp add: length_set_bytes length_le_bytes del: le_bytes.simps)
  moreover have "writeUInt8 (set_bytes p1 4 (le_bytes 2 prt)) interval 6
      = Inr (set_bytes (set_bytes p1 4 (le_bytes 2 prt)) 6 (le_bytes 1 interval))"
    using assms len2 by (simp add: writeUInt8_def writeUIntLE_def del: le_bytes.simps)
  moreover have "length (set_bytes (set_bytes p1 4 (le_bytes 2 prt)) 6 (le_bytes 1 interval)) = 7"
    using len2 by (simp add: length_set_bytes length_le_bytes del: le_bytes.simps)
  ultimately show ?thesis
    using p1 by (simp add: setServerAddress_payload_def andThen_simps del: le_bytes.simps)
qed

lemma setServerAddress_sends:
  assumes "uint32_serial this" "0 \<le> prt" "prt \<le> 65535" "0 \<le> interval" "interval \<le> 255"
  shows "\<exists>pl. setServerAddress_payload ipToHex addr prt interval = Inr pl \<and> length pl = 7
     \<and> setServerAddress ipToHex this addr prt interval
       = Inr (transmit this (header this 0x90 @ pl @ replicate 49 0))"
proof -
  obtain pl where pl: "setServerAddress_payload ipToHex addr prt interval = Inr pl"
    "length pl = 7"
    using setServerAddress_payload_Inr [OF assms(2-5)] by blast
  from pl(2) packData_buffer [OF _ _ assms(1), of "0x90" pl]
  have "packData this 0x90 (Some (PBuffer pl)) = Inr (header this 0x90 @ pl @ replicate 49 0)"
    by simp
  with pl show ?thesis
    by (simp add: setServerAddress_def sendData_transmit andThen_simps)
qed





section \<open>The numbers that the commands write\<close>

lemma le_bytes2_read:
  assumes "0 \<le> p" "p < 2 ^ 16"
  shows "uint (le_bytes 2 p ! 0) + 256 * uint (le_bytes 2 p ! 1) = p"
proof -
  define q1 where "q1 = p div 256"
  have b: "uint (word_of_int (k mod 256) :: u8) = k mod 256" for k
    by (simp add: uint_word_of_int)
  have unfold: "le_bytes 2 p = [word_of_int (p mod 256), word_of_int (q1 mod 256)]"
    by (simp add: numeral_eq_Suc q1_def)
  have "0 \<le> q1" "q1 < 256"
    using assms by (simp_all add: q1_def)
  then have small: "q1 mod 256 = q1"
    by simp
  have "p = p mod 256 + 256 * q1"
    by (simp add: q1_def)
  with small have "p mod 256 + 256 * (q1 mod 256) = p"
    by linarith
  then show ?thesis
    by (simp only: unfold b nth_Cons_0 nth_Cons_Suc One_nat_def)
qed

lemma le_bytes1_read:
  assumes "0 \<le> v" "v \<le> 255"
  shows "uint (le_bytes 1 v ! 0) = v"
  using assms by (simp add: uint_word_of_int)

lemma packData_funcCode_range:
  assumes "funcCode < 0 \<or> 255 < funcCode"
  shows "packData this funcCode p = Inl RangeError"
  using assms
  by (auto simp: packData_def andThen_def writeUInt8_def writeUIntLE_def alloc_def
      set_bytes_def)

lemma sendData_number:
  assumes "uint32_serial this" "0 \<le> funcCode" "funcCode \<le> 255" "0 \<le> n" "n \<le> 255"
  shows "\<exists>f. sendData this funcCode (Some (PNumber n)) = Inr (transmit this f)
     \<and> length f = 64 \<and> uint (f ! 1) = funcCode \<and> uint (f ! 8) = n"
proof -
  let ?f = "header this funcCode @ word_of_int n # replicate 55 0"
  have pack: "packData this funcCode (Some (PNumber n)) = Inr ?f"
    by (rule packData_number [OF assms(2,3,1,4,5)])
  then have "sendData this funcCode (Some (PNumber n)) = Inr (transmit this ?f)"
    by (simp add: sendData_transmit andThen_simps)
  moreover have "length ?f = 64"
    by (simp add: length_header)
  moreover have "uint (?f ! 1) = funcCode"
    using packData_Inr_nth [OF pack, of 1] assms(2,3) by (simp add: header_def uint_byte)
  moreover have "uint (?f ! 8) = n"
    using assms(4,5) frame_nth_payload [of this funcCode _ 0] by (simp add: uint_byte)
  ultimately show ?thesis
    by blast
qed

lemma sendData_number_range:
  assumes "uint32_serial this" "funcCode < 0 \<or> 255 < funcCode \<or> n < 0 \<or> 255 < n"
  shows "sendData this funcCode (Some (PNumber n)) = Inl RangeError"
proof (cases "funcCode < 0 \<or> 255 < funcCode")
  case True
  then show ?thesis
    by (simp add: packData_funcCode_range sendData_Inl)
next
  case False
  with assms(2) have "\<not> fits_frame (Some (PNumber n))"
    by (auto simp: fits_frame_def)
  from packData_unfit [OF _ _ assms(1) this, of funcCode] False show ?thesis
    by (simp add: sendData_Inl)
qed

lemma card_lookup_sends:
  assumes "uint32_serial this" "0 \<le> funcCode" "funcCode \<le> 255" "0 \<le> cardNo"
    "cardNo < 2 ^ 32"
  shows "\<exists>f. andThen (writeUInt32LE (alloc 56) cardNo 0)
        (\<lambda>p. sendData this funcCode (Some (PBuffer p))) = Inr (transmit this f)
     \<and> length f = 64 \<and> readUInt32LE f 8 = cardNo"
proof -
  let ?L = "le_bytes 4 cardNo"
  let ?pl = "?L @ replicate 52 0"
  let ?f = "header this funcCode @ ?pl @ replicate (56 - length ?pl) 0"
  have lenL: "length ?L = 4"
    by (rule length_le_bytes)
  have w: "writeUInt32LE (alloc 56) cardNo 0 = Inr ?pl"
    using assms(4,5) lenL
    by (simp add: writeUInt32LE_def writeUIntLE_def alloc_def set_bytes_def
        del: le_bytes.simps)
  have len: "length ?pl = 56"
    using lenL by simp
  then have "packData this funcCode (Some (PBuffer ?pl)) = Inr ?f"
    using packData_buffer [OF assms(2,3,1), of ?pl] by simp
  then have sends: "andThen (writeUInt32LE (alloc 56) cardNo 0)
      (\<lambda>p. sendData this funcCode (Some (PBuffer p))) = Inr (transmit this ?f)"
    by (simp only: w sendData_transmit andThen_simps)
  have "length ?f = 64"
    using len by (simp only: length_append length_header length_replicate)
  moreover have "?f ! (8 + i) = ?L ! i" if "i < 4" for i
    using that frame_nth_prefix [of i ?L this funcCode "replicate 52 0"]
    by (simp only: length_le_bytes)
  from this [of 0] this [of 1] this [of 2] this [of 3]
  have "readUInt32LE ?f 8 = cardNo"
    using le_bytes4_read [OF assms(4,5)]
    by (simp add: readUInt32LE_def del: le_bytes.simps)
  ultimately show ?thesis
    using sends by blast
qed

lemma card_lookup_range:
  assumes "cardNo < 0 \<or> 2 ^ 32 \<le> cardNo"
  shows "andThen (writeUInt32LE (alloc 56) cardNo 0) g = Inl RangeError"
proof -
  from assms have "writeUInt32LE (alloc 56) cardNo 0 = Inl RangeError"
    by (auto simp: writeUInt32LE_def writeUIntLE_def)
  then show ?thesis
    by (simp add: andThen_simps)
qed

lemma setServerAddress_payload_eq:
  assumes "0 \<le> prt" "prt \<le> 65535" "0 \<le> interval" "interval \<le> 255"
  shows "\<exists>a4. length a4 = 4
     \<and> setServerAddress_payload ipToHex addr prt interval
       = Inr (a4 @ le_bytes 2 prt @ le_bytes 1 interval)"
proof -
  obtain p1 where p1: "write_hex (alloc 7) (ipToHex addr) 0 = Inr p1" "length p1 = 7"
    using write_hex_Inr [of 0 "alloc 7"] by (auto simp: alloc_def)
  let ?a4 = "take 4 p1"
  have len4: "length ?a4 = 4"
    using p1(2) by simp
  have len2: "length (le_bytes 2 prt) = 2"
    by (rule length_le_bytes)
  have w16: "writeUInt16LE p1 prt 4 = Inr (?a4 @ le_bytes 2 prt @ drop 6 p1)"
    using assms p1(2) len2
    by (simp add: writeUInt16LE_def writeUIntLE_def set_bytes_def del: le_bytes.simps)
  have w8: "writeUInt8 (?a4 @ le_bytes 2 prt @ drop 6 p1) interval 6
      = Inr (?a4 @ le_bytes 2 prt @ le_bytes 1 interval)"
    using assms p1(2) len2 len4
    by (simp add: writeUInt8_def writeUIntLE_def set_bytes_def length_le_bytes
        del: le_bytes.simps)
  have "setServerAddress_payload ipToHex addr prt interval
      = Inr (?a4 @ le_bytes 2 prt @ le_bytes 1 interval)"
    unfolding setServerAddress_payload_def by (simp only: p1(1) w16 w8 andThen_simps)
  with len4 show ?thesis
    by blast
qed

lemma setServerAddress_payload_range:
  assumes "prt < 0 \<or> 65535 < prt \<or> interval < 0 \<or> 255 < interval"
  shows "setServerAddress_payload ipToHex addr prt interval = Inl RangeError"
proof -
  obtain p1 where p1: "write_hex (alloc 7) (ipToHex addr) 0 = Inr p1" "length p1 = 7"
    using write_hex_Inr [of 0 "alloc 7"] by (auto simp: alloc_def)
  show ?thesis
  proof (cases "prt < 0 \<or> 65535 < prt")
    case True
    then have "writeUInt16LE p1 prt 4 = Inl RangeError"
      by (auto simp: writeUInt16LE_def writeUIntLE_def)
    then show ?thesis
      by (simp add: setServerAddress_payload_def p1(1) andThen_simps)
  next
    case False
    then obtain p2 where p2: "writeUInt16LE p1 prt 4 = Inr p2"
      using p1(2) by (auto simp: writeUInt16LE_def writeUIntLE_def)
    from False assms have "writeUInt8 p2 interval 6 = Inl RangeError"
      by (auto simp: writeUInt8_def writeUIntLE_def)
    then show ?thesis
      by (simp add: setServerAddress_payload_def p1(1) p2 andThen_simps)
  qed
qed

lemma setServerAddress_numbers:
  assumes "uint32_serial this" "0 \<le> prt" "prt \<le> 65535" "0 \<le> interval" "interval \<le> 255"
  shows "\<exists>f. setServerAddress ipToHex this addr prt interval = Inr (transmit this f)
     \<and> length f = 64 \<and> uint (f ! 12) + 256 * uint (f ! 13) = prt
     \<and> uint (f ! 14) = interval"
proof -
  obtain a4 where a4: "length a4 = 4"
    and pl: "setServerAddress_payload ipToHex addr prt interval
      = Inr (a4 @ le_bytes 2 prt @ le_bytes 1 interval)"
    using setServerAddress_payload_eq [OF assms(2-5)] by blast
  let ?L2 = "le_bytes 2 prt"
  let ?L1 = "le_bytes 1 interval"
  let ?pl = "a4 @ ?L2 @ ?L1"
  let ?f = "header this 0x90 @ ?pl @ replicate (56 - length ?pl) 0"
  have len: "length ?pl = 7"
    using a4 by (simp add: length_le_bytes del: le_bytes.simps)
  then have "packData this 0x90 (Some (PBuffer ?pl)) = Inr ?f"
    using packData_buffer [OF _ _ assms(1), of "0x90" ?pl] by simp
  then have sends: "setServerAddress ipToHex this addr prt interval = Inr (transmit this ?f)"
    by (simp only: setServerAddress_def pl sendData_transmit andThen_simps)
  have lenf: "length ?f = 64"
    using len by (simp only: length_append length_header length_replicate)
  have at: "?f ! (8 + i) = ?pl ! i" if "i < 7" for i
    using that frame_nth_prefix [of i ?pl this "0x90" "[]"] len
    by (simp del: le_bytes.simps)
  have "?pl ! 4 = ?L2 ! 0" "?pl ! 5 = ?L2 ! 1" "?pl ! 6 = ?L1 ! 0"
    using a4 by (simp_all add: nth_append length_le_bytes del: le_bytes.simps)
  with at [of 4] at [of 5] at [of 6]
  have "?f ! 12 = ?L2 ! 0" "?f ! 13 = ?L2 ! 1" "?f ! 14 = ?L1 ! 0"
    by (simp_all del: le_bytes.simps)
  with le_bytes2_read [of prt] le_bytes1_read [OF assms(4,5)] assms(2,3)
  have "uint (?f ! 12) + 256 * uint (?f ! 13) = prt" "uint (?f ! 14) = interval"
    by (simp_all del: le_bytes.simps)
  with sends lenf show ?thesis
    by blast
qed


lemma setAuth_numbers:
  assumes "uint32_serial this" "0 \<le> cardNo" "cardNo < 2 ^ 32"
  shows "\<exists>f. setAuth this cardNo d = Inr (transmit this f) \<and> length f = 64
     \<and> readUInt32LE f 8 = cardNo"
proof -
  let ?L = "le_bytes 4 cardNo"
  let ?rest = "[0x20, 0x19, 0x01, 0x01, 0x20, 0x29, 0x12, 0x31,
      if d = 1 then 1 else 0, if d = 2 then 1 else 0,
      if d = 3 then 1 else 0, if d = 4 then 1 else (0::u8)]"
  let ?f = "header this 0x50 @ (?L @ ?rest) @ replicate (56 - length (?L @ ?rest)) 0"
  have pl: "setAuth_payload cardNo d = Inr (?L @ ?rest)"
    using setAuth_payload_eq [OF assms(2,3), of d] by simp
  have len: "length (?L @ ?rest) = 16"
    by (simp add: length_le_bytes del: le_bytes.simps)
  then have "packData this 0x50 (Some (PBuffer (?L @ ?rest))) = Inr ?f"
    using packData_buffer [OF _ _ assms(1), of "0x50" "?L @ ?rest"] by simp
  then have sent: "setAuth this cardNo d = Inr (transmit this ?f)"
    by (simp only: setAuth_def pl sendData_transmit andThen_simps)
  have "length ?f = 64"
    using len by (simp only: length_append length_header length_replicate)
  moreover have "?f ! (8 + i) = ?L ! i" if "i < 4" for i
    using that frame_nth_prefix [of i ?L this "0x50" ?rest]
    by (simp only: length_le_bytes)
  from this [of 0] this [of 1] this [of 2] this [of 3]
  have "readUInt32LE ?f 8 = cardNo"
    using le_bytes4_read [OF assms(2,3)]
    by (simp add: readUInt32LE_def del: le_bytes.simps)
  ultimately show ?thesis
    using sent by blast
qed

lemma setAuth_range:
  assumes "cardNo < 0 \<or> 2 ^ 32 \<le> cardNo"
  shows "setAuth this cardNo d = Inl RangeError"
proof -
  from assms have "writeUInt32LE (alloc 16) cardNo 0 = Inl RangeError"
    by (auto simp: writeUInt32LE_def writeUIntLE_def)
  then show ?thesis
    by (simp add: setAuth_def setAuth_payload_def andThen_simps)
qed

section \<open>Construction\<close>

lemma constructor_local_searching:
  "constructor (UdpSocket example_socket) (Some 1001) (Some ''10.0.0.5'') (Some 9000) None None
   = Inr example_searching"
  by code_simp

lemma constructor_remote:
  "constructor (TcpSocket s) serial_arg serverIp_arg serverPort_arg ip_arg port_arg
   = Inr \<lparr>ip = (case ip_arg of None \<Rightarrow> [] | Some a \<Rightarrow> a),
          port = (case port_arg of None \<Rightarrow> 60000 | Some n \<Rightarrow> n),
          serial = serial_arg, localSocket = None, remoteSocket = Some s,
          detected = Some ((case ip_arg of None \<Rightarrow> [] | Some a \<Rightarrow> a) \<noteq> []),
          serverIp = None, serverPort = None\<rparr>"
  by (simp add: constructor_def andThen_simps truthy_str_def truthy_num_def Let_def)

section \<open>Claims about the frame encoder\<close>

text \<open>
  C3, as the code has it. For every function code that is a byte, on an instance whose
  serial is absent or an unsigned 32-bit number: when the payload is absent, a string,
  a number that is a byte or a byte sequence of at most 56 bytes, the encoder returns a
  buffer of exactly 64 bytes whose byte 0 is 0x17 and whose byte 1 is the function
  code; for any other payload, a longer byte sequence among them, it throws a
  \<^verbatim>\<open>RangeError\<close> and returns no buffer.
\<close>

theorem packData_frame_shape:
  assumes "0 \<le> funcCode" "funcCode \<le> 255" "uint32_serial this"
  shows "if fits_frame p
         then \<exists>f. packData this funcCode p = Inr f \<and> length f = 64 \<and> f ! 0 = 0x17
                \<and> uint (f ! 1) = funcCode
         else packData this funcCode p = Inl RangeError"
proof (cases "fits_frame p")
  case True
  from packData_returns [OF assms True] obtain body
    where f: "packData this funcCode p = Inr (header this funcCode @ body)"
    by blast
  from packData_Inr_frame [OF f] have "length (header this funcCode @ body) = 64" ..
  moreover from packData_Inr_nth [OF f, of 0]
  have "(header this funcCode @ body) ! 0 = 0x17"
    by (simp add: header_def)
  moreover from packData_Inr_nth [OF f, of 1] assms(1,2)
  have "uint ((header this funcCode @ body) ! 1) = funcCode"
    by (simp add: header_def uint_byte)
  ultimately show ?thesis
    using True f by simp
next
  case False
  with write_payload_fits [of "header this funcCode @ replicate 56 0" p]
    packData_header [OF assms, of p]
  show ?thesis
    by (simp add: length_header)
qed

text \<open>
  C3 as it is written, for every payload, fails on a byte sequence of 57 bytes:
  \<^verbatim>\<open>data.fill(payload, 8, 65)\<close> on the buffer of 64 bytes throws.
\<close>

theorem packData_frame_shape_counterexample:
  "packData example_local 0x40 (Some (PBuffer (replicate 57 0))) = Inl RangeError"
  by code_simp

theorem packData_frame_shape_witness:
  "(0::int) \<le> 0x40 \<and> (0x40::int) \<le> 255 \<and> uint32_serial example_local
   \<and> fits_frame (Some (PNumber 3))
   \<and> (\<exists>f. packData example_local 0x40 (Some (PNumber 3)) = Inr f \<and> length f = 64
          \<and> f ! 0 = 0x17 \<and> uint (f ! 1) = 0x40)
   \<and> \<not> fits_frame (Some (PBuffer (replicate 60 7)))
   \<and> packData example_local 0x40 (Some (PBuffer (replicate 60 7))) = Inl RangeError"
proof -
  have ser: "uint32_serial example_local"
    by (simp add: uint32_serial_def)
  have fit: "fits_frame (Some (PNumber 3))"
    and unfit: "\<not> fits_frame (Some (PBuffer (replicate 60 7)))"
    by (simp_all add: fits_frame_def)
  from packData_frame_shape [of "0x40" example_local "Some (PNumber 3)"]
    packData_frame_shape [of "0x40" example_local "Some (PBuffer (replicate 60 7))"]
    ser fit unfit
  show ?thesis
    by simp
qed

text \<open>
  C4, as the code has it. For every function code that is a byte, on an instance whose
  serial is absent or an unsigned 32-bit number: a byte sequence of at most 56 bytes is
  copied as it is from offset 8 on, with zeros after it, and a longer one makes the
  encoder throw a \<^verbatim>\<open>RangeError\<close>, it is not cut; a number that is a byte is written at
  offset 8; a string is stripped of its white space and decoded from hexadecimal from
  offset 8 on, up to the end of the buffer, so that the hexadecimal writing of at most 56
  bytes, with any white space in it, gives these bytes; without a payload the offsets
  from 8 on are zero.
\<close>

theorem packData_payload:
  assumes "0 \<le> funcCode" "funcCode \<le> 255" "uint32_serial this"
  shows "(length b \<le> 56 \<longrightarrow>
            packData this funcCode (Some (PBuffer b))
            = Inr (header this funcCode @ b @ replicate (56 - length b) 0))
       \<and> (56 < length b \<longrightarrow> packData this funcCode (Some (PBuffer b)) = Inl RangeError)
       \<and> (0 \<le> n \<and> n \<le> 255 \<longrightarrow>
            packData this funcCode (Some (PNumber n))
            = Inr (header this funcCode @ word_of_int n # replicate 55 0))
       \<and> packData this funcCode (Some (PString s))
            = Inr (header this funcCode @ hexDecode 56 (strip_space s)
                   @ replicate (56 - length (hexDecode 56 (strip_space s))) 0)
       \<and> (strip_space s = hex_of bs \<and> length bs \<le> 56 \<longrightarrow>
            packData this funcCode (Some (PString s))
            = Inr (header this funcCode @ bs @ replicate (56 - length bs) 0))
       \<and> packData this funcCode None = Inr (header this funcCode @ replicate 56 0)"
proof -
  let ?d = "header this funcCode @ replicate 56 0"
  have len: "length ?d = 64"
    by (simp add: length_header)
  note pack = packData_header [OF assms] write_payload_fits [OF len]
  have buf: "length b \<le> 56 \<longrightarrow>
      packData this funcCode (Some (PBuffer b))
      = Inr (header this funcCode @ b @ replicate (56 - length b) 0)"
    by (simp add: pack fits_frame_def length_header)
  have long: "56 < length b \<longrightarrow> packData this funcCode (Some (PBuffer b)) = Inl RangeError"
    by (simp add: pack fits_frame_def)
  have "packData this funcCode (Some (PNumber n))
      = Inr (header this funcCode
             @ (if n = 0 then replicate 56 0 else word_of_int n # replicate 55 0))"
    if "0 \<le> n \<and> n \<le> 255"
    using that by (simp add: pack fits_frame_def length_header)
  moreover have "replicate 56 (0::u8) = word_of_int 0 # replicate 55 0"
    using replicate_Suc [of 55 "0::u8"] by simp
  ultimately have num: "0 \<le> n \<and> n \<le> 255 \<longrightarrow>
      packData this funcCode (Some (PNumber n))
      = Inr (header this funcCode @ word_of_int n # replicate 55 0)"
    by (cases "n = 0") simp_all
  have str: "packData this funcCode (Some (PString s))
      = Inr (header this funcCode @ hexDecode 56 (strip_space s)
             @ replicate (56 - length (hexDecode 56 (strip_space s))) 0)"
    using length_hexDecode [of 56 "strip_space s"]
    by (auto simp: pack fits_frame_def length_header strip_space_def hexDecode_Nil)
  have hex: "strip_space s = hex_of bs \<and> length bs \<le> 56 \<longrightarrow>
      packData this funcCode (Some (PString s))
      = Inr (header this funcCode @ bs @ replicate (56 - length bs) 0)"
    by (simp add: str hexDecode_hex_of)
  have none: "packData this funcCode None = Inr (header this funcCode @ replicate 56 0)"
    by (simp add: pack fits_frame_def length_header)
  from buf long num str hex none show ?thesis
    by blast
qed

text \<open>
  C4 as it is written, the encoder succeeding for a byte sequence of any length, fails on
  one of 64 bytes.
\<close>

theorem packData_payload_counterexample:
  "packData example_local 0x30 (Some (PBuffer (replicate 64 0xFF))) = Inl RangeError"
  by code_simp

theorem packData_payload_witness:
  "(0::int) \<le> 0x54 \<and> (0x54::int) \<le> 255 \<and> uint32_serial example_local
   \<and> strip_space ''55 aa aa 55'' = hex_of [0x55, 0xAA, 0xAA, 0x55]
   \<and> packData example_local 0x54 (Some (PBuffer [0x55, 0xAA, 0xAA, 0x55]))
       = Inr (header example_local 0x54 @ [0x55, 0xAA, 0xAA, 0x55] @ replicate 52 0)
   \<and> packData example_local 0x54 (Some (PBuffer (replicate 57 1))) = Inl RangeError
   \<and> packData example_local 0x54 (Some (PNumber 3))
       = Inr (header example_local 0x54 @ 3 # replicate 55 0)
   \<and> packData example_local 0x54 (Some (PString ''55 aa aa 55''))
       = Inr (header example_local 0x54 @ [0x55, 0xAA, 0xAA, 0x55] @ replicate 52 0)
   \<and> packData example_local 0x54 None = Inr (header example_local 0x54 @ replicate 56 0)"
proof -
  have ser: "uint32_serial example_local"
    by (simp add: uint32_serial_def)
  have hex: "strip_space ''55 aa aa 55'' = hex_of [0x55, 0xAA, 0xAA, 0x55]"
    by code_simp
  from packData_payload [of "0x54" example_local "[0x55, 0xAA, 0xAA, 0x55]" 3
      "''55 aa aa 55''" "[0x55, 0xAA, 0xAA, 0x55]"]
    packData_payload [of "0x54" example_local "replicate 57 1"] ser hex
  show ?thesis
    by simp
qed

text \<open>
  C9. For every function code and every payload, a frame that the encoder returns on an
  instance with a serial \<open>s\<close> other than 0 holds \<open>s\<close> at the offsets 4 to 7, least
  significant byte first; without a serial, or with the serial 0, these offsets are
  zero. The encoder does return a frame for every function code that is a byte, every
  serial that is an unsigned 32-bit number and every payload that fits.
\<close>

theorem packData_serial_field:
  "(packData this funcCode p = Inr f \<longrightarrow>
      (\<forall>s. serial this = Some s \<and> s \<noteq> 0 \<longrightarrow> readUInt32LE f 4 = s)
      \<and> (serial this = None \<or> serial this = Some 0 \<longrightarrow>
           f ! 4 = 0 \<and> f ! 5 = 0 \<and> f ! 6 = 0 \<and> f ! 7 = 0))
   \<and> (0 \<le> funcCode \<and> funcCode \<le> 255 \<and> uint32_serial this \<and> fits_frame p \<longrightarrow>
        (\<exists>g. packData this funcCode p = Inr g))"
proof (intro conjI impI allI)
  fix s
  assume f: "packData this funcCode p = Inr f" and s: "serial this = Some s \<and> s \<noteq> 0"
  from packData_Inr_serial [OF f] s have range: "0 \<le> s" "s < 2 ^ 32"
    by (simp_all add: uint32_serial_def)
  have "f ! 4 = le_bytes 4 s ! 0" "f ! 5 = le_bytes 4 s ! 1" "f ! 6 = le_bytes 4 s ! 2"
    "f ! 7 = le_bytes 4 s ! 3"
    using packData_Inr_nth [OF f, of 4] packData_Inr_nth [OF f, of 5]
      packData_Inr_nth [OF f, of 6] packData_Inr_nth [OF f, of 7] s
    by (simp_all add: header_def serial_value_def nth_append)
  with le_bytes4_read [OF range] show "readUInt32LE f 4 = s"
    by (simp add: readUInt32LE_def)
next
  assume f: "packData this funcCode p = Inr f"
    and s: "serial this = None \<or> serial this = Some 0"
  from s have "le_bytes 4 (serial_value this) = [0, 0, 0, 0]"
    by (auto simp: serial_value_def numeral_eq_Suc)
  with packData_Inr_nth [OF f, of 4] packData_Inr_nth [OF f, of 5]
    packData_Inr_nth [OF f, of 6] packData_Inr_nth [OF f, of 7]
  show "f ! 4 = 0" "f ! 5 = 0" "f ! 6 = 0" "f ! 7 = 0"
    by (simp_all add: header_def)
next
  assume "0 \<le> funcCode \<and> funcCode \<le> 255 \<and> uint32_serial this \<and> fits_frame p"
  then show "\<exists>g. packData this funcCode p = Inr g"
    using packData_returns [of funcCode this p] by blast
qed

theorem packData_serial_field_witness:
  "packData example_local 0x94 None
     = Inr ([0x17, 0x94, 0, 0, 0xE9, 0x03, 0, 0] @ replicate 56 0)
   \<and> serial example_local = Some 1001 \<and> (1001::int) \<noteq> 0
   \<and> readUInt32LE ([0x17, 0x94, 0, 0, 0xE9, 0x03, 0, 0] @ replicate 56 0) 4 = 1001
   \<and> packData (example_local\<lparr>serial := None\<rparr>) 0x94 None
     = Inr ([0x17, 0x94, 0, 0, 0, 0, 0, 0] @ replicate 56 0)
   \<and> ([0x17, 0x94, 0, 0, 0, 0, 0, 0] @ replicate 56 (0::u8)) ! 4 = 0
   \<and> uint32_serial example_local \<and> fits_frame (Some (PNumber 3))
   \<and> (\<exists>g. packData example_local 0x40 (Some (PNumber 3)) = Inr g)"
proof -
  have f: "packData example_local 0x94 None
      = Inr ([0x17, 0x94, 0, 0, 0xE9, 0x03, 0, 0] @ replicate 56 0)"
    by code_simp
  have g: "packData (example_local\<lparr>serial := None\<rparr>) 0x94 None
      = Inr ([0x17, 0x94, 0, 0, 0, 0, 0, 0] @ replicate 56 0)"
    by code_simp
  have ok: "uint32_serial example_local" "fits_frame (Some (PNumber 3))"
    by (simp_all add: uint32_serial_def fits_frame_def)
  from packData_serial_field [of example_local "0x94" None
      "[0x17, 0x94, 0, 0, 0xE9, 0x03, 0, 0] @ replicate 56 0"] f
  have "readUInt32LE ([0x17, 0x94, 0, 0, 0xE9, 0x03, 0, 0] @ replicate 56 0) 4 = 1001"
    by simp
  moreover
  from packData_serial_field [of "example_local\<lparr>serial := None\<rparr>" "0x94" None
      "[0x17, 0x94, 0, 0, 0, 0, 0, 0] @ replicate 56 0"] g
  have "([0x17, 0x94, 0, 0, 0, 0, 0, 0] @ replicate 56 (0::u8)) ! 4 = 0"
    by simp
  moreover
  from packData_serial_field [of example_local "0x40" "Some (PNumber 3)"] ok
  have "\<exists>g. packData example_local 0x40 (Some (PNumber 3)) = Inr g"
    by simp
  ultimately show ?thesis
    using f g ok by simp
qed

section \<open>Claims about the commands\<close>

text \<open>
  C6. For every card number of 32 bits and every door value, \<^verbatim>\<open>setAuth\<close> builds a
  payload of 16 bytes and sends it with the function code 0x50. With the door among 1,
  2, 3 and 4, the one offset among 12 to 15 that matches the door holds 1 and the other
  three hold 0; with any other door value none of the offsets 12 to 15 holds 1.
\<close>

theorem setAuth_door_mask:
  assumes "0 \<le> cardNo" "cardNo < 2 ^ 32"
  shows "\<exists>pl. setAuth_payload cardNo door = Inr pl \<and> length pl = 16
     \<and> setAuth this cardNo door = sendData this 0x50 (Some (PBuffer pl))
     \<and> (door \<in> {1, 2, 3, 4} \<longrightarrow>
          pl ! (11 + nat door) = 1
          \<and> (\<forall>i \<in> {12, 13, 14, 15}. i \<noteq> 11 + nat door \<longrightarrow> pl ! i = 0))
     \<and> (door \<notin> {1, 2, 3, 4} \<longrightarrow> (\<forall>i \<in> {12, 13, 14, 15}. pl ! i \<noteq> 1))"
proof -
  obtain a b c d where L: "le_bytes 4 cardNo = [a, b, c, d]"
    using length4E [OF length_le_bytes [of 4 cardNo]] by blast
  show ?thesis
    using setAuth_payload_eq [OF assms, of door]
    by (auto simp: L setAuth_def andThen_simps)
qed

theorem setAuth_door_mask_witness:
  "(0::int) \<le> 305419896 \<and> (305419896::int) < 2 ^ 32 \<and> (3::int) \<in> {1, 2, 3, 4}
   \<and> (7::int) \<notin> {1, 2, 3, 4}
   \<and> (\<exists>pl. setAuth_payload 305419896 3 = Inr pl \<and> length pl = 16
         \<and> pl ! 14 = 1 \<and> pl ! 12 = 0 \<and> pl ! 13 = 0 \<and> pl ! 15 = 0)
   \<and> (\<exists>pl. setAuth_payload 305419896 7 = Inr pl \<and> length pl = 16
         \<and> pl ! 12 \<noteq> 1 \<and> pl ! 13 \<noteq> 1 \<and> pl ! 14 \<noteq> 1 \<and> pl ! 15 \<noteq> 1)"
  using setAuth_door_mask [of 305419896 3 example_local]
    setAuth_door_mask [of 305419896 7 example_local]
  by auto

text \<open>
  C5, as the code has it, for the numbers that are integers. The public methods compare
  no number with a range themselves: every numeric argument goes to a checked write of
  the buffer. On an instance whose serial is absent or an unsigned 32-bit number, a
  number inside the width of its field is written as it is and the frame is sent, and a
  number outside the width makes the method throw a \<^verbatim>\<open>RangeError\<close> to the caller, with
  nothing sent: nothing is truncated or wrapped. The fields are: the door of
  \<^verbatim>\<open>openDoor\<close>, one byte at offset 8; the card number of \<^verbatim>\<open>setAuth\<close>, \<^verbatim>\<open>getAuth\<close> and
  \<^verbatim>\<open>removeAuth\<close>, four bytes from offset 8 on, least significant first; the port of
  \<^verbatim>\<open>setServerAddress\<close>, two bytes at offsets 12 and 13, least significant first, and its
  interval, one byte at offset 14; the function code of \<^verbatim>\<open>sendData\<close>, one byte at offset
  1, and its numeric payload, one byte at offset 8. The door of \<^verbatim>\<open>setAuth\<close> is only
  compared with 1, 2, 3 and 4: no door value makes it throw.
\<close>

theorem numeric_arguments_checked:
  assumes "uint32_serial this"
  shows "(0 \<le> door \<and> door \<le> 255 \<longrightarrow>
            (\<exists>f. openDoor this door = Inr (transmit this f) \<and> length f = 64
                 \<and> uint (f ! 8) = door))
       \<and> (door < 0 \<or> 255 < door \<longrightarrow> openDoor this door = Inl RangeError)
       \<and> (0 \<le> cardNo \<and> cardNo < 2 ^ 32 \<longrightarrow>
            (\<exists>f. setAuth this cardNo d = Inr (transmit this f) \<and> length f = 64
                 \<and> readUInt32LE f 8 = cardNo))
       \<and> (cardNo < 0 \<or> 2 ^ 32 \<le> cardNo \<longrightarrow> setAuth this cardNo d = Inl RangeError)
       \<and> (0 \<le> cardNo \<and> cardNo < 2 ^ 32 \<longrightarrow>
            (\<exists>f. getAuth this cardNo = Inr (transmit this f) \<and> length f = 64
                 \<and> readUInt32LE f 8 = cardNo))
       \<and> (cardNo < 0 \<or> 2 ^ 32 \<le> cardNo \<longrightarrow> getAuth this cardNo = Inl RangeError)
       \<and> (0 \<le> cardNo \<and> cardNo < 2 ^ 32 \<longrightarrow>
            (\<exists>f. removeAuth this cardNo = Inr (transmit this f) \<and> length f = 64
                 \<and> readUInt32LE f 8 = cardNo))
       \<and> (cardNo < 0 \<or> 2 ^ 32 \<le> cardNo \<longrightarrow> removeAuth this cardNo = Inl RangeError)
       \<and> (0 \<le> prt \<and> prt \<le> 65535 \<and> 0 \<le> interval \<and> interval \<le> 255 \<longrightarrow>
            (\<exists>f. setServerAddress ipToHex this addr prt interval = Inr (transmit this f)
                 \<and> length f = 64 \<and> uint (f ! 12) + 256 * uint (f ! 13) = prt
                 \<and> uint (f ! 14) = interval))
       \<and> (prt < 0 \<or> 65535 < prt \<or> interval < 0 \<or> 255 < interval \<longrightarrow>
            setServerAddress ipToHex this addr prt interval = Inl RangeError)
       \<and> (0 \<le> funcCode \<and> funcCode \<le> 255 \<and> 0 \<le> n \<and> n \<le> 255 \<longrightarrow>
            (\<exists>f. sendData this funcCode (Some (PNumber n)) = Inr (transmit this f)
                 \<and> length f = 64 \<and> uint (f ! 1) = funcCode \<and> uint (f ! 8) = n))
       \<and> (funcCode < 0 \<or> 255 < funcCode \<or> n < 0 \<or> 255 < n \<longrightarrow>
            sendData this funcCode (Some (PNumber n)) = Inl RangeError)"
proof -
  have door_ok: "0 \<le> door \<and> door \<le> 255 \<longrightarrow>
      (\<exists>f. openDoor this door = Inr (transmit this f) \<and> length f = 64
           \<and> uint (f ! 8) = door)"
    using sendData_number [OF assms, of "0x40" door] by (auto simp: openDoor_def)
  have door_out: "door < 0 \<or> 255 < door \<longrightarrow> openDoor this door = Inl RangeError"
    using sendData_number_range [OF assms, of "0x40" door] by (auto simp: openDoor_def)
  have set_ok: "0 \<le> cardNo \<and> cardNo < 2 ^ 32 \<longrightarrow>
      (\<exists>f. setAuth this cardNo d = Inr (transmit this f) \<and> length f = 64
           \<and> readUInt32LE f 8 = cardNo)"
    using setAuth_numbers [OF assms, of cardNo d] by blast
  have set_out: "cardNo < 0 \<or> 2 ^ 32 \<le> cardNo \<longrightarrow> setAuth this cardNo d = Inl RangeError"
    using setAuth_range [of cardNo this d] by blast
  have get_ok: "0 \<le> cardNo \<and> cardNo < 2 ^ 32 \<longrightarrow>
      (\<exists>f. getAuth this cardNo = Inr (transmit this f) \<and> length f = 64
           \<and> readUInt32LE f 8 = cardNo)"
    unfolding getAuth_def using card_lookup_sends [OF assms, of "0x5a" cardNo] by simp
  have get_out: "cardNo < 0 \<or> 2 ^ 32 \<le> cardNo \<longrightarrow> getAuth this cardNo = Inl RangeError"
    unfolding getAuth_def using card_lookup_range [of cardNo] by blast
  have rem_ok: "0 \<le> cardNo \<and> cardNo < 2 ^ 32 \<longrightarrow>
      (\<exists>f. removeAuth this cardNo = Inr (transmit this f) \<and> length f = 64
           \<and> readUInt32LE f 8 = cardNo)"
    unfolding removeAuth_def using card_lookup_sends [OF assms, of "0x52" cardNo] by simp
  have rem_out: "cardNo < 0 \<or> 2 ^ 32 \<le> cardNo \<longrightarrow> removeAuth this cardNo = Inl RangeError"
    unfolding removeAuth_def using card_lookup_range [of cardNo] by blast
  have srv_ok: "0 \<le> prt \<and> prt \<le> 65535 \<and> 0 \<le> interval \<and> interval \<le> 255 \<longrightarrow>
      (\<exists>f. setServerAddress ipToHex this addr prt interval = Inr (transmit this f)
           \<and> length f = 64 \<and> uint (f ! 12) + 256 * uint (f ! 13) = prt
           \<and> uint (f ! 14) = interval)"
    using setServerAddress_numbers [OF assms, of prt interval ipToHex addr] by blast
  have srv_out: "prt < 0 \<or> 65535 < prt \<or> interval < 0 \<or> 255 < interval \<longrightarrow>
      setServerAddress ipToHex this addr prt interval = Inl RangeError"
    using setServerAddress_payload_range [of prt interval ipToHex addr]
    by (auto simp: setServerAddress_def andThen_simps)
  have send_ok: "0 \<le> funcCode \<and> funcCode \<le> 255 \<and> 0 \<le> n \<and> n \<le> 255 \<longrightarrow>
      (\<exists>f. sendData this funcCode (Some (PNumber n)) = Inr (transmit this f)
           \<and> length f = 64 \<and> uint (f ! 1) = funcCode \<and> uint (f ! 8) = n)"
    using sendData_number [OF assms, of funcCode n] by blast
  have send_out: "funcCode < 0 \<or> 255 < funcCode \<or> n < 0 \<or> 255 < n \<longrightarrow>
      sendData this funcCode (Some (PNumber n)) = Inl RangeError"
    using sendData_number_range [OF assms, of funcCode n] by blast
  from door_ok door_out set_ok set_out get_ok get_out rem_ok rem_out srv_ok srv_out
    send_ok send_out
  show ?thesis
    by (intro conjI)
qed

text \<open>
  C5 as it is written, no error for any number, fails on the door 256: the checked write
  of one byte throws.
\<close>

theorem openDoor_range_counterexample:
  "openDoor example_local 256 = Inl RangeError"
  by code_simp

theorem numeric_arguments_checked_witness:
  "uint32_serial example_local
   \<and> (\<exists>f. openDoor example_local 3 = Inr (transmit example_local f) \<and> length f = 64
         \<and> uint (f ! 8) = 3)
   \<and> openDoor example_local (- 1) = Inl RangeError
   \<and> (\<exists>f. setAuth example_local 305419896 3 = Inr (transmit example_local f) \<and> length f = 64
         \<and> readUInt32LE f 8 = 305419896)
   \<and> setAuth example_local 4294967296 3 = Inl RangeError
   \<and> (\<exists>f. getAuth example_local 305419896 = Inr (transmit example_local f) \<and> length f = 64
         \<and> readUInt32LE f 8 = 305419896)
   \<and> getAuth example_local 4294967296 = Inl RangeError
   \<and> (\<exists>f. removeAuth example_local 305419896 = Inr (transmit example_local f)
         \<and> length f = 64 \<and> readUInt32LE f 8 = 305419896)
   \<and> removeAuth example_local 4294967296 = Inl RangeError
   \<and> (\<exists>f. setServerAddress (\<lambda>a. ''0a000005'') example_local ''10.0.0.5'' 9000 30
           = Inr (transmit example_local f)
         \<and> length f = 64 \<and> uint (f ! 12) + 256 * uint (f ! 13) = 9000 \<and> uint (f ! 14) = 30)
   \<and> setServerAddress (\<lambda>a. ''0a000005'') example_local ''10.0.0.5'' 70000 256
       = Inl RangeError
   \<and> (\<exists>f. sendData example_local 0x40 (Some (PNumber 3)) = Inr (transmit example_local f)
         \<and> length f = 64 \<and> uint (f ! 1) = 0x40 \<and> uint (f ! 8) = 3)
   \<and> sendData example_local 300 (Some (PNumber (- 1))) = Inl RangeError"
proof -
  have ser: "uint32_serial example_local"
    by (simp add: uint32_serial_def)
  note inside = numeric_arguments_checked [OF ser, of 3 305419896 _ 9000 30 _ _ "0x40" 3]
  note outside = numeric_arguments_checked [OF ser, of "- 1" 4294967296 _ 70000 256 _ _ 300
      "- 1"]
  have "\<exists>f. openDoor example_local 3 = Inr (transmit example_local f) \<and> length f = 64
      \<and> uint (f ! 8) = 3"
    by (rule inside [THEN conjunct1, THEN mp]) simp
  moreover have "openDoor example_local (- 1) = Inl RangeError"
    by (rule outside [THEN conjunct2, THEN conjunct1, THEN mp]) simp
  moreover have "\<exists>f. setAuth example_local 305419896 3 = Inr (transmit example_local f)
      \<and> length f = 64 \<and> readUInt32LE f 8 = 305419896"
    by (rule inside [THEN conjunct2, THEN conjunct2, THEN conjunct1, THEN mp]) simp
  moreover have "setAuth example_local 4294967296 3 = Inl RangeError"
    by (rule outside [THEN conjunct2, THEN conjunct2, THEN conjunct2, THEN conjunct1,
          THEN mp]) simp
  moreover have "\<exists>f. getAuth example_local 305419896 = Inr (transmit example_local f)
      \<and> length f = 64 \<and> readUInt32LE f 8 = 305419896"
    by (rule inside [THEN conjunct2, THEN conjunct2, THEN conjunct2, THEN conjunct2,
          THEN conjunct1, THEN mp]) simp
  moreover have "getAuth example_local 4294967296 = Inl RangeError"
    by (rule outside [THEN conjunct2, THEN conjunct2, THEN conjunct2, THEN conjunct2,
          THEN conjunct2, THEN conjunct1, THEN mp]) simp
  moreover have "\<exists>f. removeAuth example_local 305419896 = Inr (transmit example_local f)
      \<and> length f = 64 \<and> readUInt32LE f 8 = 305419896"
    by (rule inside [THEN conjunct2, THEN conjunct2, THEN conjunct2, THEN conjunct2,
          THEN conjunct2, THEN conjunct2, THEN conjunct1, THEN mp]) simp
  moreover have "removeAuth example_local 4294967296 = Inl RangeError"
    by (rule outside [THEN conjunct2, THEN conjunct2, THEN conjunct2, THEN conjunct2,
          THEN conjunct2, THEN conjunct2, THEN conjunct2, THEN conjunct1, THEN mp]) simp
  moreover have "\<exists>f. setServerAddress (\<lambda>a. ''0a000005'') example_local ''10.0.0.5'' 9000 30
        = Inr (transmit example_local f)
      \<and> length f = 64 \<and> uint (f ! 12) + 256 * uint (f ! 13) = 9000 \<and> uint (f ! 14) = 30"
    by (rule inside [THEN conjunct2, THEN conjunct2, THEN conjunct2, THEN conjunct2,
          THEN conjunct2, THEN conjunct2, THEN conjunct2, THEN conjunct2, THEN conjunct1,
          THEN mp]) simp
  moreover have "setServerAddress (\<lambda>a. ''0a000005'') example_local ''10.0.0.5'' 70000 256
      = Inl RangeError"
    by (rule outside [THEN conjunct2, THEN conjunct2, THEN conjunct2, THEN conjunct2,
          THEN conjunct2, THEN conjunct2, THEN conjunct2, THEN conjunct2, THEN conjunct2,
          THEN conjunct1, THEN mp]) simp
  moreover have "\<exists>f. sendData example_local 0x40 (Some (PNumber 3))
        = Inr (transmit example_local f)
      \<and> length f = 64 \<and> uint (f ! 1) = 0x40 \<and> uint (f ! 8) = 3"
    by (rule inside [THEN conjunct2, THEN conjunct2, THEN conjunct2, THEN conjunct2,
          THEN conjunct2, THEN conjunct2, THEN conjunct2, THEN conjunct2, THEN conjunct2,
          THEN conjunct2, THEN conjunct1, THEN mp]) simp
  moreover have "sendData example_local 300 (Some (PNumber (- 1))) = Inl RangeError"
    by (rule outside [THEN conjunct2, THEN conjunct2, THEN conjunct2, THEN conjunct2,
          THEN conjunct2, THEN conjunct2, THEN conjunct2, THEN conjunct2, THEN conjunct2,
          THEN conjunct2, THEN conjunct2, THEN mp]) simp
  ultimately show ?thesis
    using ser by (intro conjI)
qed



text \<open>
  C8. For every address, subnet and gateway, on an instance whose serial is absent or an
  unsigned 32-bit number, \<^verbatim>\<open>setAddress\<close> returns with the cached address cleared,
  whatever the payload is, and the next frame sent through the local socket goes to
  255.255.255.255.
\<close>

theorem setAddress_clears_ip:
  assumes "uint32_serial this"
  shows "\<exists>t. setAddress ipToHex this a sn gw = Inr t \<and> ip t = [] \<and> port t = port this
     \<and> (localSocket this \<noteq> None \<longrightarrow> localSocket t \<noteq> None)
     \<and> (\<forall>s data. localSocket t = Some s \<longrightarrow>
          (\<exists>s'. localSocket (localSendData t data) = Some s'
             \<and> sent s' = sent s @ [(data, port this, ''255.255.255.255'')]))"
proof -
  obtain pl where pl: "setAddress_payload ipToHex a sn gw = Inr pl" "length pl = 16"
    using setAddress_payload_Inr by blast
  then have "fits_frame (Some (PBuffer pl))"
    by (simp add: fits_frame_def)
  from sendData_fits [OF _ _ assms this, of "0x96"] obtain body
    where t1: "sendData this 0x96 (Some (PBuffer pl))
      = Inr (transmit this (header this 0x96 @ body))"
    by auto
  let ?t1 = "transmit this (header this 0x96 @ body)"
  let ?t = "?t1\<lparr>ip := []\<rparr>"
  have keep: "port ?t1 = port this"
    by (simp add: transmit_fields)
  have "setAddress ipToHex this a sn gw = Inr ?t"
    by (simp add: setAddress_def pl t1 andThen_simps)
  moreover have "localSocket this \<noteq> None \<longrightarrow> localSocket ?t \<noteq> None"
    using transmit_localSocket [of this "header this 0x96 @ body"] by simp
  moreover have "\<exists>s'. localSocket (localSendData ?t data) = Some s'
      \<and> sent s' = sent s @ [(data, port this, ''255.255.255.255'')]"
    if "localSocket ?t = Some s" for s data
    using that keep by (simp add: localSendData_def)
  ultimately show ?thesis
    using keep by (intro exI [of _ ?t]) simp
qed

theorem setAddress_clears_ip_witness:
  "uint32_serial (example_local\<lparr>ip := ''10.0.0.42''\<rparr>)
   \<and> (\<exists>t. setAddress (\<lambda>a. ''c0a80164'') (example_local\<lparr>ip := ''10.0.0.42''\<rparr>)
            ''192.168.1.100'' ''255.255.255.0'' ''192.168.1.1'' = Inr t
         \<and> ip t = [] \<and> port t = 60000
         \<and> (\<exists>s s'. localSocket t = Some s
               \<and> localSocket (localSendData t search_frame) = Some s'
               \<and> sent s' = sent s @ [(search_frame, 60000, ''255.255.255.255'')]))"
proof -
  have ser: "uint32_serial (example_local\<lparr>ip := ''10.0.0.42''\<rparr>)"
    by (simp add: uint32_serial_def)
  from setAddress_clears_ip [OF ser, of "\<lambda>a. ''c0a80164''" "''192.168.1.100''"
      "''255.255.255.0''" "''192.168.1.1''"]
  obtain t where t: "setAddress (\<lambda>a. ''c0a80164'') (example_local\<lparr>ip := ''10.0.0.42''\<rparr>)
        ''192.168.1.100'' ''255.255.255.0'' ''192.168.1.1'' = Inr t"
      "ip t = []" "port t = 60000" "localSocket t \<noteq> None"
    and next_send: "\<And>s data. localSocket t = Some s \<Longrightarrow>
        \<exists>s'. localSocket (localSendData t data) = Some s'
          \<and> sent s' = sent s @ [(data, 60000, ''255.255.255.255'')]"
    by auto
  from t(4) obtain s where s: "localSocket t = Some s"
    by blast
  from next_send [OF s, of search_frame] s t ser show ?thesis
    by blast
qed

section \<open>Claims about the transports and the construction\<close>

text \<open>
  C7. A frame sent through the local socket: without a cached address the broadcast
  flag of the socket is set and the datagram goes to 255.255.255.255; with a cached
  address the datagram goes to that address and the flag stays as it is; the port is the
  port of the instance in both cases. On an instance without a remote socket this is
  the way every frame of \<^verbatim>\<open>sendData\<close> takes.
\<close>

theorem localSendData_target:
  assumes "localSocket this = Some s"
  shows "(\<exists>s'. localSocket (localSendData this data) = Some s'
       \<and> sent s' = sent s @ [(data, port this,
                               if ip this = [] then ''255.255.255.255'' else ip this)]
       \<and> (ip this = [] \<longrightarrow> broadcast s')
       \<and> (ip this \<noteq> [] \<longrightarrow> broadcast s' = broadcast s))
     \<and> (remoteSocket this = None \<and> packData this funcCode p = Inr data \<longrightarrow>
          sendData this funcCode p = Inr (localSendData this data))"
  using assms by (simp add: localSendData_def sendData_def andThen_simps)

theorem localSendData_target_witness:
  "localSocket example_local = Some example_socket
   \<and> (\<exists>s'. localSocket (localSendData example_local search_frame) = Some s'
         \<and> sent s' = [(search_frame, 60000, ''255.255.255.255'')] \<and> broadcast s')
   \<and> (\<exists>s'. localSocket (localSendData (example_local\<lparr>ip := ''10.0.0.42''\<rparr>) search_frame)
              = Some s'
         \<and> sent s' = [(search_frame, 60000, ''10.0.0.42'')] \<and> \<not> broadcast s')
   \<and> remoteSocket example_local = None
   \<and> packData example_local 0x94 None = Inr search_frame
   \<and> sendData example_local 0x94 None = Inr (localSendData example_local search_frame)"
proof -
  have a: "localSocket example_local = Some example_socket"
    and b: "localSocket (example_local\<lparr>ip := ''10.0.0.42''\<rparr>) = Some example_socket"
    and c: "remoteSocket example_local = None"
    by simp_all
  have d: "packData example_local 0x94 None = Inr search_frame"
    by code_simp
  from localSendData_target [OF a, of search_frame "0x94" None]
    localSendData_target [OF b, of search_frame] a c d
  show ?thesis
    by simp
qed

text \<open>
  C1 does not hold on the code. The test of the branch of the TCP socket reads the fields
  \<^verbatim>\<open>this.serverIp\<close> and \<^verbatim>\<open>this.serverPort\<close>, which only the other branch assigns, and
  not the arguments: constructing an instance on a TCP socket with the callback target
  10.0.0.5, port 9000, returns the instance, with no callback target, and throws
  nothing.
\<close>

theorem constructor_remote_callback:
  "constructor (TcpSocket \<lparr>written = []\<rparr>) (Some 1001) (Some ''10.0.0.5'') (Some 9000) None None
   = Inr \<lparr>ip = [], port = 60000, serial = Some 1001, localSocket = None,
          remoteSocket = Some \<lparr>written = []\<rparr>, detected = Some False,
          serverIp = None, serverPort = None\<rparr>"
  by (simp add: constructor_remote)

section \<open>Claims about discovery\<close>

text \<open>
  C2. A datagram that arrives while the listener of \<^verbatim>\<open>detect\<close> is registered and that
  decodes to a reply, on an instance with the callback target \<open>a\<close>, port \<open>b\<close>. When the
  serial of the reply differs from the serial of the instance, the event ends with the
  listener removed and nothing else changed: the cached address is as it was, the promise
  is still pending, nothing is sent. When the serials are equal, the cached address
  becomes absent for the address 192.168.0.0 and the address of the reply otherwise, the
  promise is resolved, and the event goes on with \<^verbatim>\<open>setServerAddress\<close> for \<open>a\<close>, \<open>b\<close> and
  the interval 0 on that instance; the cached address stays what the reply made it. When
  the port is an unsigned 16-bit number (and the serial an unsigned 32-bit number), no
  exception leaves it and the frame with the function code 0x90 and the payload of
  \<^verbatim>\<open>setServerAddress\<close> is handed to the transport.
\<close>

theorem message_event_reply:
  assumes "localSocket this = Some s" "listening s" "parseData msg = Inr data"
    and "serverIp this = Some a" "serverPort this = Some b"
  shows
    "(Some (data_serial data) \<noteq> serial this \<longrightarrow>
        message_event parseData ipToHex this msg
        = (this\<lparr>localSocket := Some (s\<lparr>listening := False\<rparr>)\<rparr>, None))
   \<and> (Some (data_serial data) = serial this \<longrightarrow>
        (let found = (if data_ip data = ''192.168.0.0'' then [] else data_ip data);
             this' = this\<lparr>localSocket := Some (s\<lparr>listening := False\<rparr>), ip := found,
                          detected := Some True\<rparr>
         in message_event parseData ipToHex this msg
              = (case setServerAddress ipToHex this' a b 0 of
                   Inl e \<Rightarrow> (this', Some e)
                 | Inr t \<Rightarrow> (t, None))
            \<and> ip (fst (message_event parseData ipToHex this msg)) = found
            \<and> (uint32_serial this \<and> 0 \<le> b \<and> b \<le> 65535 \<longrightarrow>
                 (\<exists>pl. setServerAddress_payload ipToHex a b 0 = Inr pl
                    \<and> message_event parseData ipToHex this msg
                      = (transmit this' (header this' 0x90 @ pl @ replicate 49 0), None)))))"
proof (intro conjI impI)
  assume "Some (data_serial data) \<noteq> serial this"
  with assms show "message_event parseData ipToHex this msg
      = (this\<lparr>localSocket := Some (s\<lparr>listening := False\<rparr>)\<rparr>, None)"
    by (simp add: message_event_def on_message_def andThen_simps Let_def)
next
  assume match: "Some (data_serial data) = serial this"
  let ?found = "if data_ip data = ''192.168.0.0'' then [] else data_ip data"
  let ?this' = "this\<lparr>localSocket := Some (s\<lparr>listening := False\<rparr>), ip := ?found,
    detected := Some True\<rparr>"
  have ev: "message_event parseData ipToHex this msg
      = (case setServerAddress ipToHex ?this' a b 0 of
           Inl e \<Rightarrow> (?this', Some e)
         | Inr t \<Rightarrow> (t, None))"
    using assms match
    by (simp add: message_event_def on_message_def detect_resume_def andThen_simps Let_def)
  have keep: "ip (fst (message_event parseData ipToHex this msg)) = ?found"
  proof (cases "setServerAddress ipToHex ?this' a b 0")
    case (Inl e)
    then show ?thesis by (simp only: ev sum.case fst_conv) simp
  next
    case (Inr t)
    then have "ip t = ip ?this'"
      by (auto simp: setServerAddress_def andThen_Inr dest: sendData_Inr)
    with Inr show ?thesis by (simp only: ev sum.case fst_conv) simp
  qed
  have sends: "\<exists>pl. setServerAddress_payload ipToHex a b 0 = Inr pl
      \<and> message_event parseData ipToHex this msg
        = (transmit ?this' (header ?this' 0x90 @ pl @ replicate 49 0), None)"
    if "uint32_serial this \<and> 0 \<le> b \<and> b \<le> 65535"
  proof -
    from that have "uint32_serial ?this'"
      by (simp add: uint32_serial_def)
    from setServerAddress_sends [OF this, of b 0 ipToHex a] that obtain pl
      where pl: "setServerAddress_payload ipToHex a b 0 = Inr pl"
        "setServerAddress ipToHex ?this' a b 0
         = Inr (transmit ?this' (header ?this' 0x90 @ pl @ replicate 49 0))"
      by auto
    from pl(2) have "message_event parseData ipToHex this msg
        = (transmit ?this' (header ?this' 0x90 @ pl @ replicate 49 0), None)"
      by (simp only: ev sum.case)
    with pl(1) show ?thesis by blast
  qed
  from ev keep sends
  show "let found = (if data_ip data = ''192.168.0.0'' then [] else data_ip data);
            this' = this\<lparr>localSocket := Some (s\<lparr>listening := False\<rparr>), ip := found,
                         detected := Some True\<rparr>
        in message_event parseData ipToHex this msg
             = (case setServerAddress ipToHex this' a b 0 of
                  Inl e \<Rightarrow> (this', Some e)
                | Inr t \<Rightarrow> (t, None))
           \<and> ip (fst (message_event parseData ipToHex this msg)) = found
           \<and> (uint32_serial this \<and> 0 \<le> b \<and> b \<le> 65535 \<longrightarrow>
                (\<exists>pl. setServerAddress_payload ipToHex a b 0 = Inr pl
                   \<and> message_event parseData ipToHex this msg
                     = (transmit this' (header this' 0x90 @ pl @ replicate 49 0), None)))"
    unfolding Let_def by blast
qed

theorem message_event_reply_witness:
  "localSocket example_searching = Some searching_socket \<and> listening searching_socket
   \<and> message_event (\<lambda>m. Inr (example_reply 2002 ''10.0.0.77'')) (\<lambda>a. ''0a000005'')
        example_searching []
      = (example_searching\<lparr>localSocket := Some (searching_socket\<lparr>listening := False\<rparr>)\<rparr>,
         None)
   \<and> ip (fst (message_event (\<lambda>m. Inr (example_reply 1001 ''192.168.0.0''))
        (\<lambda>a. ''0a000005'') example_searching [])) = []
   \<and> ip (fst (message_event (\<lambda>m. Inr (example_reply 1001 ''10.0.0.42''))
        (\<lambda>a. ''0a000005'') example_searching [])) = ''10.0.0.42''
   \<and> setServerAddress_payload (\<lambda>a. ''0a000005'') ''10.0.0.5'' 9000 0
      = Inr [10, 0, 0, 5, 0x28, 0x23, 0]
   \<and> message_event (\<lambda>m. Inr (example_reply 1001 ''10.0.0.42'')) (\<lambda>a. ''0a000005'')
        example_searching []
      = (transmit
           (example_searching\<lparr>localSocket := Some (searching_socket\<lparr>listening := False\<rparr>),
              ip := ''10.0.0.42'', detected := Some True\<rparr>)
           ([0x17, 0x90, 0, 0, 0xE9, 0x03, 0, 0] @ [10, 0, 0, 5, 0x28, 0x23, 0]
            @ replicate 49 0),
         None)"
proof -
  let ?hex = "\<lambda>a::string. ''0a000005''"
  have sock: "localSocket example_searching = Some searching_socket"
    and lis: "listening searching_socket"
    and target: "serverIp example_searching = Some ''10.0.0.5''"
      "serverPort example_searching = Some 9000"
    by simp_all
  have pl: "setServerAddress_payload ?hex ''10.0.0.5'' 9000 0 = Inr [10, 0, 0, 5, 0x28, 0x23, 0]"
    by code_simp
  have hd: "header (example_searching\<lparr>localSocket := Some (searching_socket\<lparr>listening := False\<rparr>),
      ip := ''10.0.0.42'', detected := Some True\<rparr>) 0x90 = [0x17, 0x90, 0, 0, 0xE9, 0x03, 0, 0]"
    by code_simp
  have ser: "uint32_serial example_searching"
    by (simp add: uint32_serial_def)
  note reply = message_event_reply [OF sock lis _ target, where msg = "[]" and ipToHex = ?hex]
  have other: "message_event (\<lambda>m. Inr (example_reply 2002 ''10.0.0.77'')) ?hex
        example_searching []
      = (example_searching\<lparr>localSocket := Some (searching_socket\<lparr>listening := False\<rparr>)\<rparr>,
         None)"
    by (rule reply [of "\<lambda>m. Inr (example_reply 2002 ''10.0.0.77'')"
          "example_reply 2002 ''10.0.0.77''", OF refl, THEN conjunct1, THEN mp]) simp
  have "Some (data_serial (example_reply 1001 ''192.168.0.0'')) = serial example_searching"
    by simp
  from reply [of "\<lambda>m. Inr (example_reply 1001 ''192.168.0.0'')"
      "example_reply 1001 ''192.168.0.0''", OF refl, THEN conjunct2, THEN mp, OF this,
      unfolded Let_def, THEN conjunct2, THEN conjunct1]
  have invalid: "ip (fst (message_event (\<lambda>m. Inr (example_reply 1001 ''192.168.0.0''))
        ?hex example_searching [])) = []"
    by simp
  have "Some (data_serial (example_reply 1001 ''10.0.0.42'')) = serial example_searching"
    by simp
  note match = reply [of "\<lambda>m. Inr (example_reply 1001 ''10.0.0.42'')"
      "example_reply 1001 ''10.0.0.42''", OF refl, THEN conjunct2, THEN mp, OF this,
      unfolded Let_def]
  from match [THEN conjunct2, THEN conjunct1]
  have found: "ip (fst (message_event (\<lambda>m. Inr (example_reply 1001 ''10.0.0.42''))
        ?hex example_searching [])) = ''10.0.0.42''"
    by simp
  have "uint32_serial example_searching \<and> (0::int) \<le> 9000 \<and> (9000::int) \<le> 65535"
    using ser by simp
  from match [THEN conjunct2, THEN conjunct2, THEN mp, OF this] obtain pl'
    where pl': "setServerAddress_payload ?hex ''10.0.0.5'' 9000 0 = Inr pl'"
      and ev: "message_event (\<lambda>m. Inr (example_reply 1001 ''10.0.0.42'')) ?hex
          example_searching []
        = (transmit
             (example_searching\<lparr>localSocket := Some (searching_socket\<lparr>listening := False\<rparr>),
                ip := if data_ip (example_reply 1001 ''10.0.0.42'') = ''192.168.0.0'' then []
                      else data_ip (example_reply 1001 ''10.0.0.42''),
                detected := Some True\<rparr>)
             (header
               (example_searching\<lparr>localSocket := Some (searching_socket\<lparr>listening := False\<rparr>),
                  ip := if data_ip (example_reply 1001 ''10.0.0.42'') = ''192.168.0.0'' then []
                        else data_ip (example_reply 1001 ''10.0.0.42''),
                  detected := Some True\<rparr>) 0x90 @ pl' @ replicate 49 0),
           None)"
    by blast
  from pl pl' have "pl' = [10, 0, 0, 5, 0x28, 0x23, 0]"
    by simp
  with ev have issued: "message_event (\<lambda>m. Inr (example_reply 1001 ''10.0.0.42'')) ?hex
        example_searching []
      = (transmit
           (example_searching\<lparr>localSocket := Some (searching_socket\<lparr>listening := False\<rparr>),
              ip := ''10.0.0.42'', detected := Some True\<rparr>)
           ([0x17, 0x90, 0, 0, 0xE9, 0x03, 0, 0] @ [10, 0, 0, 5, 0x28, 0x23, 0]
            @ replicate 49 0),
         None)"
    using hd by simp
  from sock lis other invalid found pl issued show ?thesis
    by blast
qed

end
